theory Spec2Isabelle
  imports Main
begin

section \<open>The pipeline runner of down.py\<close>

text \<open>
  The development embeds the function \<open>main\<close> of \<^verbatim>\<open>src/down.py\<close> (lines 62 to 148)
  together with its two helpers \<open>which_or_exit\<close> and \<open>run\<close>.

  The script is a sequence of effects on the outside world, so the model threads a
  \<open>world\<close> through every statement: the disk, and a chronological trace of what the
  run did (what it printed and on which stream, which subprocesses it started and how
  they ended, which file operations it performed itself).

  Everything outside the script is a parameter, collected in the record \<open>env\<close>:
  the result of \<^verbatim>\<open>shutil.which\<close>, the directory handed out by
  \<^verbatim>\<open>tempfile.mkdtemp\<close>, and the behaviour of the external tools. A tool is an
  arbitrary function from its argument vector and the disk to an outcome and a new
  disk; it also receives the number of subprocesses started before it, so that the
  same command may behave differently when it is run a second time.

  Python exceptions are values of the type \<open>exn\<close>; a statement returns
  \<open>Inl\<close> of the exception it raised, or \<open>Inr\<close> of its value.

  Idealisations: a path names a regular file or nothing (the only directory that is
  tracked is the temporary one); the script's own file operations and its prints do
  not fail for reasons outside the model (permissions, a full disk, a closed stream).

  What is modelled is \<open>main\<close> as the guard of lines 150 and 151 calls it. The file
  as shipped has one more line, line 152, \<^verbatim>\<open>git push origin main\<close>, which is not
  Python: the interpreter refuses the whole file before it runs any of it, so the shipped
  file never calls \<open>main\<close>. That line has no counterpart here, and every statement
  below is about \<open>main\<close> once it is called.
\<close>

subsection \<open>Configuration (lines 31 to 43)\<close>

definition MPD :: string where
  "MPD = ''https://media-cdn.classplusapp.com/drm/wv/65af90731ffd3734c4a70d00/e80761cf731ebf4e82c29de281fc5bd1/e80761cf731ebf4e82c29de281fc5bd1.mpd?key=162856104&hdnts=URLPrefix=aHR0cHM6Ly9tZWRpYS1jZG4uY2xhc3NwbHVzYXBwLmNvbS9kcm0vd3YvNjVhZjkwNzMxZmZkMzczNGM0YTcwZDAwL2U4MDc2MWNmNzMxZWJmNGU4MmMyOWRlMjgxZmM1YmQx~Expires=1758283526~hmac=f31053c294bd6db8695671d174a06a6961085e774b0a09ff7d3553d8a3d31d87''"

definition KEYS :: "string list" where
  "KEYS =
    [''833cac330e3f5243bb92b6b1a1f0b830:33eb631c7784af4a6cc9267ed8cbffb0'',
     ''af975c9bf15c521e8ca7946fa5d846eb:b5c26089aca357bfcbff3d6b4a0480a9'',
     ''4b4c8d2ef8885b7db7e8cbaa35157229:f860fe5061896ee121bf09b8050fea67'',
     ''6f5bc63cfb4c527983544e2be87c3ee3:b626a566974683745075058387989f9b'',
     ''829e92634faa53d3825d17710a11d8e7:68287246dd16c51cc36232d577f4108a'']"

definition OUTPUT :: string where
  "OUTPUT = ''final_output.mp4''"

subsection \<open>The world\<close>

text \<open>
  The disk: the directories that are tracked, and the regular files as a list of
  (path, contents) in directory-listing order. A path occurs at most once on a disk
  written through \<open>write_file\<close>; lookups read the first occurrence.
\<close>

record disk =
  dirs :: "string list"
  files :: "(string \<times> string) list"

datatype stream = Stdout | Stderr

text \<open>One constructor for each print statement of the source, with the values it interpolates.\<close>

datatype message =
    ErrToolMissing string           \<comment> \<open>line 51: Required tool ... not found in PATH\<close>
  | Echo "string list"              \<comment> \<open>line 56: the command, echoed before it runs\<close>
  | InfoTempDir string              \<comment> \<open>line 70\<close>
  | StepListing                     \<comment> \<open>line 79\<close>
  | StepVideo                       \<comment> \<open>line 87\<close>
  | StepAudio                       \<comment> \<open>line 92\<close>
  | ErrEncVideoMissing string       \<comment> \<open>line 97\<close>
  | WarnEncAudioMissing string      \<comment> \<open>line 100\<close>
  | StepDecrypt                     \<comment> \<open>line 103\<close>
  | InfoCandidates "string list"    \<comment> \<open>line 119\<close>
  | ErrNoCandidate                  \<comment> \<open>line 123\<close>
  | StepMerge string                \<comment> \<open>line 127\<close>
  | InfoCopyVideo                   \<comment> \<open>line 132\<close>
  | ErrDecVideoMissing              \<comment> \<open>line 135\<close>
  | Success string                  \<comment> \<open>line 138\<close>
  | CleanupKept string              \<comment> \<open>line 139\<close>
  | CleanupHint                     \<comment> \<open>line 140\<close>
  | ErrCommandFailed int "string list"  \<comment> \<open>line 143\<close>
  | CheckLogs                       \<comment> \<open>line 144\<close>
  | ErrUnexpected                   \<comment> \<open>line 147\<close>

text \<open>
  How a subprocess ends: with a return code, or not at all because it could not be
  started (\<^verbatim>\<open>subprocess.run\<close> then raises an \<^verbatim>\<open>OSError\<close>).
\<close>

datatype proc_outcome = Exited int | SpawnFailed

text \<open>
  The trace. A \<open>Spawn\<close> records the argument vector, the outcome and the disk the
  subprocess left behind.
\<close>

datatype event =
    Print stream message
  | Spawn "string list" proc_outcome disk
  | Mkdtemp string
  | Copy2 string string

record world =
  fs :: disk
  trace :: "event list"

record env =
  which :: "string \<Rightarrow> string option"
  tmpdir :: string
  exec :: "nat \<Rightarrow> string list \<Rightarrow> disk \<Rightarrow> proc_outcome \<times> disk"

datatype exn =
    SystemExit int
  | CalledProcessError int "string list"
  | OtherError

type_synonym 'a action = "world \<Rightarrow> (exn + 'a) \<times> world"

subsection \<open>Sequencing, raising and catching\<close>

definition ret :: "'a \<Rightarrow> 'a action" where
  "ret a w = (Inr a, w)"

definition raise :: "exn \<Rightarrow> 'a action" where
  "raise x w = (Inl x, w)"

definition bind :: "'a action \<Rightarrow> ('a \<Rightarrow> 'b action) \<Rightarrow> 'b action" where
  "bind m k w = (case m w of (Inl x, w') \<Rightarrow> (Inl x, w') | (Inr a, w') \<Rightarrow> k a w')"

definition then_do :: "unit action \<Rightarrow> 'b action \<Rightarrow> 'b action" where
  "then_do m k = bind m (\<lambda>_. k)"

definition try_except :: "'a action \<Rightarrow> (exn \<Rightarrow> 'a action) \<Rightarrow> 'a action" where
  "try_except m h w = (case m w of (Inl x, w') \<Rightarrow> h x w' | (Inr a, w') \<Rightarrow> (Inr a, w'))"

definition if_then_else :: "(world \<Rightarrow> bool) \<Rightarrow> 'a action \<Rightarrow> 'a action \<Rightarrow> 'a action" where
  "if_then_else c a b w = (if c w then a w else b w)"

definition sys_exit :: "int \<Rightarrow> 'a action" where
  "sys_exit n = raise (SystemExit n)"

subsection \<open>Primitive effects\<close>

definition emit :: "event \<Rightarrow> world \<Rightarrow> world" where
  "emit e w = w\<lparr>trace := trace w @ [e]\<rparr>"

definition py_print :: "stream \<Rightarrow> message \<Rightarrow> unit action" where
  "py_print s m w = (Inr (), emit (Print s m) w)"

definition path_exists :: "string \<Rightarrow> world \<Rightarrow> bool" where
  "path_exists p w = (p \<in> set (map fst (files (fs w))))"

definition read_file :: "disk \<Rightarrow> string \<Rightarrow> string option" where
  "read_file d p = map_of (files d) p"

fun write_entry :: "string \<Rightarrow> string \<Rightarrow> (string \<times> string) list \<Rightarrow> (string \<times> string) list" where
  "write_entry p c [] = [(p, c)]"
| "write_entry p c (e # es) = (if fst e = p then (p, c) # es else e # write_entry p c es)"

definition write_file :: "string \<Rightarrow> string \<Rightarrow> disk \<Rightarrow> disk" where
  "write_file p c d = d\<lparr>files := write_entry p c (files d)\<rparr>"

text \<open>\<^verbatim>\<open>tempfile.mkdtemp(prefix="mpd_dl_")\<close>: creates the directory and returns its path.\<close>

definition mkdtemp :: "env \<Rightarrow> string action" where
  "mkdtemp e w =
     (let t = tmpdir e
      in (Inr t, emit (Mkdtemp t) (w\<lparr>fs := (fs w)\<lparr>dirs := dirs (fs w) @ [t]\<rparr>\<rparr>)))"

text \<open>\<^verbatim>\<open>shutil.copy2(src, dst)\<close>: a missing source raises (an \<^verbatim>\<open>OSError\<close>).\<close>

definition copy2 :: "string \<Rightarrow> string \<Rightarrow> unit action" where
  "copy2 src dst w =
     (case read_file (fs w) src of
        None \<Rightarrow> (Inl OtherError, w)
      | Some c \<Rightarrow> (Inr (), emit (Copy2 src dst) (w\<lparr>fs := write_file dst c (fs w)\<rparr>)))"

text \<open>Path arithmetic: \<open>tmp / name\<close>, \<open>p.name\<close>, and \<open>tmp.glob("*.mp4")\<close>.\<close>

definition child :: "string \<Rightarrow> string \<Rightarrow> string" where
  "child dir name = dir @ ''/'' @ name"

definition path_name :: "string \<Rightarrow> string" where
  "path_name p = rev (takeWhile (\<lambda>c. c \<noteq> CHR ''/'') (rev p))"

definition ends_with :: "string \<Rightarrow> string \<Rightarrow> bool" where
  "ends_with s suf = (length suf \<le> length s \<and> drop (length s - length suf) s = suf)"

definition glob_mp4 :: "string \<Rightarrow> world \<Rightarrow> string list" where
  "glob_mp4 dir w =
     [p \<leftarrow> map fst (files (fs w)). p = child dir (path_name p) \<and> ends_with (path_name p) ''.mp4'']"

subsection \<open>Helpers (lines 48 to 57)\<close>

definition which_or_exit :: "env \<Rightarrow> string \<Rightarrow> string action" where
  "which_or_exit e cmd =
     (case which e cmd of
        None \<Rightarrow> then_do (py_print Stderr (ErrToolMissing cmd)) (sys_exit 1)
      | Some path \<Rightarrow>
          if path = [] then then_do (py_print Stderr (ErrToolMissing cmd)) (sys_exit 1)
          else ret path)"

fun is_spawn :: "event \<Rightarrow> bool" where
  "is_spawn (Spawn _ _ _) = True"
| "is_spawn _ = False"

text \<open>\<^verbatim>\<open>subprocess.run(cmd, check=True)\<close>: a non-zero return code raises.\<close>

definition subprocess_run :: "env \<Rightarrow> string list \<Rightarrow> unit action" where
  "subprocess_run e cmd w =
     (case exec e (length (filter is_spawn (trace w))) cmd (fs w) of
        (out, d) \<Rightarrow>
          (let w' = emit (Spawn cmd out d) (w\<lparr>fs := d\<rparr>)
           in case out of
                Exited rc \<Rightarrow> if rc \<noteq> 0 then (Inl (CalledProcessError rc cmd), w') else (Inr (), w')
              | SpawnFailed \<Rightarrow> (Inl OtherError, w')))"

definition run :: "env \<Rightarrow> string list \<Rightarrow> unit action" where
  "run e cmd = then_do (py_print Stdout (Echo cmd)) (subprocess_run e cmd)"

subsection \<open>Main flow (lines 62 to 148)\<close>

definition video_enc :: "string \<Rightarrow> string" where
  "video_enc tmp = child tmp ''video.encrypted.mp4''"

definition audio_enc :: "string \<Rightarrow> string" where
  "audio_enc tmp = child tmp ''audio.encrypted.m4a''"

definition video_dec :: "string \<Rightarrow> string" where
  "video_dec tmp = child tmp ''video.decrypted.mp4''"

definition audio_dec :: "string \<Rightarrow> string" where
  "audio_dec tmp = child tmp ''audio.decrypted.m4a''"

text \<open>Step 1, lines 79 to 84: only a \<^verbatim>\<open>CalledProcessError\<close> is swallowed.\<close>

definition list_formats :: "env \<Rightarrow> string \<Rightarrow> unit action" where
  "list_formats e yt_dlp =
     then_do (py_print Stdout StepListing)
       (try_except (run e [yt_dlp, ''-F'', MPD])
          (\<lambda>x. case x of CalledProcessError _ _ \<Rightarrow> ret () | _ \<Rightarrow> raise x))"

text \<open>Step 2, lines 87 to 89.\<close>

definition download_video :: "env \<Rightarrow> string \<Rightarrow> string \<Rightarrow> unit action" where
  "download_video e yt_dlp tmp =
     then_do (py_print Stdout StepVideo)
       (run e [yt_dlp, ''-f'', ''bestvideo'', ''-o'', video_enc tmp, MPD])"

text \<open>Step 3, lines 92 to 93.\<close>

definition download_audio :: "env \<Rightarrow> string \<Rightarrow> string \<Rightarrow> unit action" where
  "download_audio e yt_dlp tmp =
     then_do (py_print Stdout StepAudio)
       (run e [yt_dlp, ''-f'', ''bestaudio'', ''-o'', audio_enc tmp, MPD])"

text \<open>Lines 96 to 100.\<close>

definition validate_files :: "string \<Rightarrow> unit action" where
  "validate_files tmp =
     then_do
       (if_then_else (\<lambda>w. \<not> path_exists (video_enc tmp) w)
          (then_do (py_print Stderr (ErrEncVideoMissing (video_enc tmp))) (sys_exit 1))
          (ret ()))
       (if_then_else (\<lambda>w. \<not> path_exists (audio_enc tmp) w)
          (py_print Stdout (WarnEncAudioMissing (audio_enc tmp)))
          (ret ()))"

text \<open>Lines 104 to 106: the loop over \<open>KEYS\<close> that appends to \<open>key_args\<close>.\<close>

fun key_args_loop :: "string list \<Rightarrow> string list \<Rightarrow> string list" where
  "key_args_loop [] key_args = key_args"
| "key_args_loop (k # ks) key_args = key_args_loop ks (key_args @ [''--key'', k])"

definition key_args :: "string list" where
  "key_args = key_args_loop KEYS []"

text \<open>Lines 109 to 110.\<close>

definition decrypt_video :: "env \<Rightarrow> string \<Rightarrow> string \<Rightarrow> unit action" where
  "decrypt_video e mp4decrypt tmp =
     if_then_else (path_exists (video_enc tmp))
       (run e ([mp4decrypt] @ key_args @ [video_enc tmp, video_dec tmp]))
       (ret ())"

text \<open>Lines 116 to 117.\<close>

definition merged_candidates :: "string \<Rightarrow> world \<Rightarrow> string list" where
  "merged_candidates tmp w =
     [p \<leftarrow> glob_mp4 tmp w. path_name p \<noteq> path_name (video_dec tmp)]"

text \<open>
  Lines 112 to 124. In the branch of line 121 the list is not empty, so its first
  element exists.
\<close>

definition decrypt_audio_or_candidate :: "env \<Rightarrow> string \<Rightarrow> string \<Rightarrow> unit action" where
  "decrypt_audio_or_candidate e mp4decrypt tmp =
     if_then_else (path_exists (audio_enc tmp))
       (run e ([mp4decrypt] @ key_args @ [audio_enc tmp, audio_dec tmp]))
       (\<lambda>w. case merged_candidates tmp w of
              c # cs \<Rightarrow>
                then_do (py_print Stdout (InfoCandidates (c # cs)))
                  (run e ([mp4decrypt] @ key_args @ [c, video_dec tmp])) w
            | [] \<Rightarrow> then_do (py_print Stderr ErrNoCandidate) (sys_exit 1) w)"

text \<open>Step 4, lines 103 to 124.\<close>

definition decrypt_tracks :: "env \<Rightarrow> string \<Rightarrow> string \<Rightarrow> unit action" where
  "decrypt_tracks e mp4decrypt tmp =
     then_do (py_print Stdout StepDecrypt)
       (then_do (decrypt_video e mp4decrypt tmp)
          (decrypt_audio_or_candidate e mp4decrypt tmp))"

text \<open>Step 5, lines 127 to 136.\<close>

definition merge_tracks :: "env \<Rightarrow> string \<Rightarrow> string \<Rightarrow> unit action" where
  "merge_tracks e ffmpeg tmp =
     then_do (py_print Stdout (StepMerge OUTPUT))
       (if_then_else (\<lambda>w. path_exists (video_dec tmp) w \<and> path_exists (audio_dec tmp) w)
          (run e [ffmpeg, ''-y'', ''-i'', video_dec tmp, ''-i'', audio_dec tmp, ''-c'', ''copy'', OUTPUT])
          (if_then_else (\<lambda>w. path_exists (video_dec tmp) w \<and> \<not> path_exists (audio_dec tmp) w)
             (then_do (py_print Stdout InfoCopyVideo) (copy2 (video_dec tmp) OUTPUT))
             (then_do (py_print Stderr ErrDecVideoMissing) (sys_exit 1))))"

text \<open>Lines 138 to 140.\<close>

definition report_success :: "string \<Rightarrow> unit action" where
  "report_success tmp =
     then_do (py_print Stdout (Success OUTPUT))
       (then_do (py_print Stdout (CleanupKept tmp))
          (py_print Stdout CleanupHint))"

text \<open>The body of the \<^verbatim>\<open>try\<close>, lines 78 to 140.\<close>

definition pipeline :: "env \<Rightarrow> string \<Rightarrow> string \<Rightarrow> string \<Rightarrow> string \<Rightarrow> unit action" where
  "pipeline e yt_dlp mp4decrypt ffmpeg tmp =
     then_do (list_formats e yt_dlp)
       (then_do (download_video e yt_dlp tmp)
          (then_do (download_audio e yt_dlp tmp)
             (then_do (validate_files tmp)
                (then_do (decrypt_tracks e mp4decrypt tmp)
                   (then_do (merge_tracks e ffmpeg tmp)
                      (report_success tmp))))))"

text \<open>
  The handlers, lines 142 to 148. \<^verbatim>\<open>SystemExit\<close> is not an \<^verbatim>\<open>Exception\<close>:
  neither clause catches it.
\<close>

definition handlers :: "exn \<Rightarrow> unit action" where
  "handlers x =
     (case x of
        CalledProcessError rc cmd \<Rightarrow>
          then_do (py_print Stderr (ErrCommandFailed rc cmd))
            (then_do (py_print Stdout CheckLogs) (sys_exit 1))
      | OtherError \<Rightarrow> then_do (py_print Stderr ErrUnexpected) (sys_exit 1)
      | SystemExit n \<Rightarrow> raise (SystemExit n))"

text \<open>Lines 69 to 148: what \<open>main\<close> does once the three tools are resolved.\<close>

definition after_tool_check :: "env \<Rightarrow> string \<Rightarrow> string \<Rightarrow> string \<Rightarrow> unit action" where
  "after_tool_check e yt_dlp mp4decrypt ffmpeg =
     bind (mkdtemp e) (\<lambda>tmp.
     then_do (py_print Stdout (InfoTempDir tmp))
       (try_except (pipeline e yt_dlp mp4decrypt ffmpeg tmp) handlers))"

definition main :: "env \<Rightarrow> unit action" where
  "main e =
     bind (which_or_exit e ''yt-dlp'') (\<lambda>yt_dlp.
     bind (which_or_exit e ''mp4decrypt'') (\<lambda>mp4decrypt.
     bind (which_or_exit e ''ffmpeg'') (\<lambda>ffmpeg.
     after_tool_check e yt_dlp mp4decrypt ffmpeg)))"

text \<open>
  A call of \<open>main\<close> as the entry point (line 151), on a given disk: the final world
  and the exit status of the process. An exit status is the argument of
  \<^verbatim>\<open>sys.exit\<close>, 1 for an exception that nothing caught, 0 when \<open>main\<close> returns.
  Line 152 is not part of \<open>call_main\<close>.
\<close>

definition exit_status :: "(exn + unit) \<Rightarrow> int" where
  "exit_status r = (case r of Inr _ \<Rightarrow> 0 | Inl (SystemExit n) \<Rightarrow> n | Inl _ \<Rightarrow> 1)"

definition start :: "disk \<Rightarrow> world" where
  "start d = \<lparr>fs = d, trace = []\<rparr>"

definition call_main :: "env \<Rightarrow> disk \<Rightarrow> int \<times> world" where
  "call_main e d = (case main e (start d) of (r, w) \<Rightarrow> (exit_status r, w))"

subsection \<open>Sample environments\<close>

text \<open>
  Every tool resolves under \<^verbatim>\<open>/usr/bin\<close>, except the one named \<open>missing\<close>.
\<close>

definition which_all_but :: "string \<Rightarrow> string \<Rightarrow> string option" where
  "which_all_but missing cmd = (if cmd = missing then None else Some (''/usr/bin/'' @ cmd))"

text \<open>
  Tools that behave: the listing (three arguments) writes nothing, a download (six
  arguments) writes the file named after \<^verbatim>\<open>-o\<close>, the decryptor and the muxer write
  the file named last. All return 0 and leave every other file alone.
\<close>

definition ideal_tool :: "nat \<Rightarrow> string list \<Rightarrow> disk \<Rightarrow> proc_outcome \<times> disk" where
  "ideal_tool n cmd d =
     (if length cmd = 3 then (Exited 0, d)
      else if length cmd = 6 then (Exited 0, write_file (cmd ! 4) ''encrypted'' d)
      else (Exited 0, write_file (last cmd) ''clear'' d))"

text \<open>The same tools, but the \<open>k\<close>-th subprocess of the run ends as \<open>out\<close> and writes nothing.\<close>

definition tool_except :: "nat \<Rightarrow> proc_outcome \<Rightarrow> nat \<Rightarrow> string list \<Rightarrow> disk \<Rightarrow> proc_outcome \<times> disk" where
  "tool_except k out n cmd d = (if n = k then (out, d) else ideal_tool n cmd d)"

text \<open>The same tools, but the decryptor (thirteen arguments) consumes its input file.\<close>

definition moving_tool :: "nat \<Rightarrow> string list \<Rightarrow> disk \<Rightarrow> proc_outcome \<times> disk" where
  "moving_tool n cmd d =
     (if length cmd = 13
      then (Exited 0, write_file (last cmd) ''clear'' (d\<lparr>files := filter (\<lambda>f. fst f \<noteq> cmd ! 11) (files d)\<rparr>))
      else ideal_tool n cmd d)"

text \<open>
  A third subprocess (the audio download) that returns 0 without writing anything,
  followed by a decryptor that consumes its input.
\<close>

definition moving_tool_no_audio :: "nat \<Rightarrow> string list \<Rightarrow> disk \<Rightarrow> proc_outcome \<times> disk" where
  "moving_tool_no_audio n cmd d = (if n = 2 then (Exited 0, d) else moving_tool n cmd d)"

definition sample_env :: "(nat \<Rightarrow> string list \<Rightarrow> disk \<Rightarrow> proc_outcome \<times> disk) \<Rightarrow> env" where
  "sample_env t = \<lparr>which = which_all_but [], tmpdir = ''/tmp/mpd_dl_x'', exec = t\<rparr>"

definition empty_disk :: disk where
  "empty_disk = \<lparr>dirs = [], files = []\<rparr>"

subsection \<open>Observations of a trace\<close>

text \<open>The commands of the subprocesses a run started, in order.\<close>

fun commands_of :: "event list \<Rightarrow> string list list" where
  "commands_of [] = []"
| "commands_of (Spawn cmd out d # evs) = cmd # commands_of evs"
| "commands_of (ev # evs) = commands_of evs"

text \<open>What a run printed, in order, with the stream.\<close>

fun prints_of :: "event list \<Rightarrow> (stream \<times> message) list" where
  "prints_of [] = []"
| "prints_of (Print s m # evs) = (s, m) # prints_of evs"
| "prints_of (ev # evs) = prints_of evs"

subsection \<open>Assertions about actions\<close>

text \<open>
  \<open>hoare P m Q E\<close>: started in a world where \<open>P\<close> holds, the action \<open>m\<close> ends in a
  world where \<open>Q\<close> holds of its value, or raises an exception of which \<open>E\<close> holds.
\<close>

definition hoare :: "(world \<Rightarrow> bool) \<Rightarrow> 'a action \<Rightarrow> ('a \<Rightarrow> world \<Rightarrow> bool) \<Rightarrow> (exn \<Rightarrow> world \<Rightarrow> bool) \<Rightarrow> bool" where
  "hoare P m Q E = (\<forall>w. P w \<longrightarrow> (case m w of (Inr a, w') \<Rightarrow> Q a w' | (Inl x, w') \<Rightarrow> E x w'))"


text \<open>
  \<open>preserves I m\<close>: the action \<open>m\<close> keeps the invariant \<open>I\<close>, however it ends.
  \<open>all_events P\<close>: every event of the trace satisfies \<open>P\<close>.
\<close>

definition preserves :: "(world \<Rightarrow> bool) \<Rightarrow> 'a action \<Rightarrow> bool" where
  "preserves I m = (\<forall>w. I w \<longrightarrow> I (snd (m w)))"

definition all_events :: "(event \<Rightarrow> bool) \<Rightarrow> world \<Rightarrow> bool" where
  "all_events P w = (\<forall>ev \<in> set (trace w). P ev)"

subsection \<open>Assumptions about the external tools, and what is kept on disk\<close>

text \<open>
  \<open>paths d\<close>: the files on the disk. \<open>always_succeeds\<close>: every subprocess returns 0.
  \<open>keeps_files\<close>: no subprocess removes a file or a directory (it may add and
  overwrite). \<open>produces e cmd p\<close>: whenever \<open>cmd\<close> has run, the file \<open>p\<close> is on disk.
  \<open>sub_disk d d'\<close>: every file and directory of \<open>d\<close> is still on \<open>d'\<close>.
  \<open>nothing_lost d w\<close>: the disk of \<open>w\<close> still has everything that was on the initial
  disk \<open>d\<close> and on the disks left behind by the subprocesses run so far, and the
  temporary directory if it was created.
\<close>

definition paths :: "disk \<Rightarrow> string set" where
  "paths d = fst ` set (files d)"

definition always_succeeds :: "env \<Rightarrow> bool" where
  "always_succeeds e = (\<forall>n cmd d. fst (exec e n cmd d) = Exited 0)"

definition keeps_files :: "env \<Rightarrow> bool" where
  "keeps_files e =
     (\<forall>n cmd d. paths d \<subseteq> paths (snd (exec e n cmd d)) \<and>
                set (dirs d) \<subseteq> set (dirs (snd (exec e n cmd d))))"

definition produces :: "env \<Rightarrow> string list \<Rightarrow> string \<Rightarrow> bool" where
  "produces e cmd p = (\<forall>n d. p \<in> paths (snd (exec e n cmd d)))"

definition sub_disk :: "disk \<Rightarrow> disk \<Rightarrow> bool" where
  "sub_disk d d' = (paths d \<subseteq> paths d' \<and> set (dirs d) \<subseteq> set (dirs d'))"

definition nothing_lost :: "disk \<Rightarrow> world \<Rightarrow> bool" where
  "nothing_lost d w =
     (sub_disk d (fs w) \<and>
      (\<forall>cmd out d'. Spawn cmd out d' \<in> set (trace w) \<longrightarrow> sub_disk d' (fs w)) \<and>
      (\<forall>t. Mkdtemp t \<in> set (trace w) \<longrightarrow> t \<in> set (dirs (fs w))))"

section \<open>Rules for the assertions\<close>

lemma hoareI:
  assumes "\<And>w. P w \<Longrightarrow> (case m w of (Inr a, w') \<Rightarrow> Q a w' | (Inl x, w') \<Rightarrow> E x w')"
  shows "hoare P m Q E"
  using assms by (simp add: hoare_def)

lemma hoareD:
  assumes "hoare P m Q E" and "P w"
  shows "case m w of (Inr a, w') \<Rightarrow> Q a w' | (Inl x, w') \<Rightarrow> E x w'"
  using assms by (simp add: hoare_def)

lemma hoare_bind:
  assumes "hoare P m R E" and "\<And>a. hoare (R a) (k a) Q E"
  shows "hoare P (bind m k) Q E"
proof (rule hoareI)
  fix w assume pre: "P w"
  show "case bind m k w of (Inr a, w') \<Rightarrow> Q a w' | (Inl x, w') \<Rightarrow> E x w'"
  proof (cases "m w")
    case (Pair r w1)
    show ?thesis
    proof (cases r)
      case (Inl x)
      with Pair hoareD [OF assms(1) pre] show ?thesis by (simp add: bind_def)
    next
      case (Inr a)
      with Pair hoareD [OF assms(1) pre] have "R a w1" by simp
      from hoareD [OF assms(2) this] Pair Inr show ?thesis by (simp add: bind_def)
    qed
  qed
qed

lemma hoare_then:
  assumes "hoare P m (\<lambda>_. R) E" and "hoare R k Q E"
  shows "hoare P (then_do m k) Q E"
  unfolding then_do_def by (rule hoare_bind [OF assms(1)]) (rule assms(2))

lemma hoare_try:
  assumes "hoare P m Q E'" and "\<And>x. hoare (E' x) (h x) Q E"
  shows "hoare P (try_except m h) Q E"
proof (rule hoareI)
  fix w assume pre: "P w"
  show "case try_except m h w of (Inr a, w') \<Rightarrow> Q a w' | (Inl x, w') \<Rightarrow> E x w'"
  proof (cases "m w")
    case (Pair r w1)
    show ?thesis
    proof (cases r)
      case (Inr a)
      with Pair hoareD [OF assms(1) pre] show ?thesis by (simp add: try_except_def)
    next
      case (Inl x)
      with Pair hoareD [OF assms(1) pre] have "E' x w1" by simp
      from hoareD [OF assms(2) this] Pair Inl show ?thesis by (simp add: try_except_def)
    qed
  qed
qed

lemma which_or_exit_missing:
  "which e cmd = None \<Longrightarrow>
   which_or_exit e cmd w = (Inl (SystemExit 1), emit (Print Stderr (ErrToolMissing cmd)) w)"
  by (simp add: which_or_exit_def then_do_def bind_def py_print_def sys_exit_def raise_def)

lemma which_or_exit_empty:
  "which e cmd = Some [] \<Longrightarrow>
   which_or_exit e cmd w = (Inl (SystemExit 1), emit (Print Stderr (ErrToolMissing cmd)) w)"
  by (simp add: which_or_exit_def then_do_def bind_def py_print_def sys_exit_def raise_def)

lemma which_or_exit_found:
  "which e cmd = Some p \<Longrightarrow> p \<noteq> [] \<Longrightarrow> which_or_exit e cmd w = (Inr p, w)"
  by (simp add: which_or_exit_def ret_def)


section \<open>The tool check\<close>

lemma which_or_exit_cases:
  obtains (missing) "which e cmd = None \<or> which e cmd = Some []"
      "\<And>w. which_or_exit e cmd w = (Inl (SystemExit 1), emit (Print Stderr (ErrToolMissing cmd)) w)"
    | (found) p where "which e cmd = Some p" "p \<noteq> []" "\<And>w. which_or_exit e cmd w = (Inr p, w)"
proof (cases "which e cmd")
  case None
  then show ?thesis using missing which_or_exit_missing by blast
next
  case (Some p)
  show ?thesis
  proof (cases "p = []")
    case True
    with Some show ?thesis using missing which_or_exit_empty by blast
  next
    case False
    with Some show ?thesis using found which_or_exit_found by blast
  qed
qed

lemma main_cases:
  obtains (missing) cmd where "cmd \<in> {''yt-dlp'', ''mp4decrypt'', ''ffmpeg''}"
      "which e cmd = None \<or> which e cmd = Some []"
      "\<And>w. main e w = (Inl (SystemExit 1), emit (Print Stderr (ErrToolMissing cmd)) w)"
    | (found) yt mp ff where "which e ''yt-dlp'' = Some yt" "yt \<noteq> []"
      "which e ''mp4decrypt'' = Some mp" "mp \<noteq> []" "which e ''ffmpeg'' = Some ff" "ff \<noteq> []"
      "\<And>w. main e w = after_tool_check e yt mp ff w"
proof (cases e "''yt-dlp''" rule: which_or_exit_cases)
  case missing
  have "main e w = (Inl (SystemExit 1), emit (Print Stderr (ErrToolMissing ''yt-dlp'')) w)" for w
    by (simp add: main_def bind_def missing(2))
  with missing(1) show ?thesis using that(1) [of "''yt-dlp''"] by blast
next
  case yt: (found yt)
  show ?thesis
  proof (cases e "''mp4decrypt''" rule: which_or_exit_cases)
    case missing
    have "main e w = (Inl (SystemExit 1), emit (Print Stderr (ErrToolMissing ''mp4decrypt'')) w)" for w
      by (simp add: main_def bind_def yt(3) missing(2))
    with missing(1) show ?thesis using that(1) [of "''mp4decrypt''"] by blast
  next
    case mp: (found mp)
    show ?thesis
    proof (cases e "''ffmpeg''" rule: which_or_exit_cases)
      case missing
      have "main e w = (Inl (SystemExit 1), emit (Print Stderr (ErrToolMissing ''ffmpeg'')) w)" for w
        by (simp add: main_def bind_def yt(3) mp(3) missing(2))
      with missing(1) show ?thesis using that(1) [of "''ffmpeg''"] by blast
    next
      case ff: (found ff)
      have "main e w = after_tool_check e yt mp ff w" for w
        by (simp add: main_def bind_def yt(3) mp(3) ff(3))
      with yt(1,2) mp(1,2) ff(1,2) show ?thesis using that(2) by blast
    qed
  qed
qed



section \<open>Invariants\<close>

lemma preservesI: "(\<And>w. I w \<Longrightarrow> I (snd (m w))) \<Longrightarrow> preserves I m"
  by (simp add: preserves_def)

lemma preservesD: "preserves I m \<Longrightarrow> I w \<Longrightarrow> I (snd (m w))"
  by (simp add: preserves_def)

lemma preserves_ret: "preserves I (ret a)"
  by (simp add: preserves_def ret_def)

lemma preserves_raise: "preserves I (raise x)"
  by (simp add: preserves_def raise_def)

lemma preserves_sys_exit: "preserves I (sys_exit n)"
  by (simp add: sys_exit_def preserves_raise)

lemma preserves_bind:
  assumes "preserves I m" and "\<And>a. preserves I (k a)"
  shows "preserves I (bind m k)"
proof (rule preservesI)
  fix w assume "I w"
  then have 1: "I (snd (m w))" by (rule preservesD [OF assms(1)])
  show "I (snd (bind m k w))"
  proof (cases "m w")
    case (Pair r w1)
    with 1 have "I w1" by simp
    show ?thesis
    proof (cases r)
      case (Inl x)
      with Pair \<open>I w1\<close> show ?thesis by (simp add: bind_def)
    next
      case (Inr a)
      from preservesD [OF assms(2) \<open>I w1\<close>, of a] Pair Inr show ?thesis by (simp add: bind_def)
    qed
  qed
qed

lemma preserves_then: "preserves I m \<Longrightarrow> preserves I k \<Longrightarrow> preserves I (then_do m k)"
  by (simp add: then_do_def preserves_bind)

lemma preserves_try:
  assumes "preserves I m" and "\<And>x. preserves I (h x)"
  shows "preserves I (try_except m h)"
proof (rule preservesI)
  fix w assume "I w"
  then have 1: "I (snd (m w))" by (rule preservesD [OF assms(1)])
  show "I (snd (try_except m h w))"
  proof (cases "m w")
    case (Pair r w1)
    with 1 have "I w1" by simp
    show ?thesis
    proof (cases r)
      case (Inr a)
      with Pair \<open>I w1\<close> show ?thesis by (simp add: try_except_def)
    next
      case (Inl x)
      from preservesD [OF assms(2) \<open>I w1\<close>, of x] Pair Inl show ?thesis by (simp add: try_except_def)
    qed
  qed
qed

lemma preserves_if: "preserves I a \<Longrightarrow> preserves I b \<Longrightarrow> preserves I (if_then_else c a b)"
  by (simp add: preserves_def if_then_else_def)

lemma preserves_list_handler:
  "preserves I (\<lambda>w. (case x of CalledProcessError rc cmd \<Rightarrow> ret () | _ \<Rightarrow> raise x) w)"
  by (cases x) (simp_all add: preserves_ret preserves_raise)

lemma preserves_candidates:
  assumes "\<And>c cs. preserves I (f c cs)" and "preserves I g"
  shows "preserves I (\<lambda>w. case merged_candidates tmp w of c # cs \<Rightarrow> f c cs w | [] \<Rightarrow> g w)"
proof (rule preservesI)
  fix w assume "I w"
  show "I (snd (case merged_candidates tmp w of c # cs \<Rightarrow> f c cs w | [] \<Rightarrow> g w))"
  proof (cases "merged_candidates tmp w")
    case Nil
    with preservesD [OF assms(2) \<open>I w\<close>] show ?thesis by simp
  next
    case (Cons c cs)
    with preservesD [OF assms(1) \<open>I w\<close>, of c cs] show ?thesis by simp
  qed
qed

lemma events_print: "P (Print s m) \<Longrightarrow> preserves (all_events P) (py_print s m)"
  by (simp add: preserves_def all_events_def py_print_def emit_def)

lemma events_subprocess_run:
  assumes "\<And>out d. P (Spawn cmd out d)"
  shows "preserves (all_events P) (subprocess_run e cmd)"
proof (rule preservesI)
  fix w assume "all_events P w"
  then show "all_events P (snd (subprocess_run e cmd w))"
    using assms
    by (cases "exec e (length (filter is_spawn (trace w))) cmd (fs w)")
       (simp add: all_events_def subprocess_run_def emit_def Let_def split: proc_outcome.splits)
qed

lemma events_run:
  "P (Print Stdout (Echo cmd)) \<Longrightarrow> (\<And>out d. P (Spawn cmd out d)) \<Longrightarrow> preserves (all_events P) (run e cmd)"
  by (simp add: run_def preserves_then events_print events_subprocess_run)

lemma events_copy2: "P (Copy2 src dst) \<Longrightarrow> preserves (all_events P) (copy2 src dst)"
  by (simp add: preserves_def all_events_def copy2_def emit_def split: option.splits)

lemma events_mkdtemp: "P (Mkdtemp (tmpdir e)) \<Longrightarrow> preserves (all_events P) (mkdtemp e)"
  by (simp add: preserves_def all_events_def mkdtemp_def emit_def Let_def)

lemma events_handlers:
  assumes "\<And>s m. P (Print s m)"
  shows "preserves (all_events P) (handlers x)"
  by (cases x) (simp_all add: handlers_def preserves_then preserves_sys_exit preserves_raise events_print assms)

text \<open>Events of each step, for a predicate that holds of every print.\<close>

lemma events_list_formats:
  assumes "\<And>s m. P (Print s m)" and "\<And>out d. P (Spawn [yt, ''-F'', MPD] out d)"
  shows "preserves (all_events P) (list_formats e yt)"
  unfolding list_formats_def
  by (intro preserves_then preserves_try events_run events_print preserves_list_handler assms)

lemma events_download_video:
  assumes "\<And>s m. P (Print s m)"
    and "\<And>out d. P (Spawn [yt, ''-f'', ''bestvideo'', ''-o'', video_enc tmp, MPD] out d)"
  shows "preserves (all_events P) (download_video e yt tmp)"
  unfolding download_video_def
  by (intro preserves_then events_run events_print assms)

lemma events_download_audio:
  assumes "\<And>s m. P (Print s m)"
    and "\<And>out d. P (Spawn [yt, ''-f'', ''bestaudio'', ''-o'', audio_enc tmp, MPD] out d)"
  shows "preserves (all_events P) (download_audio e yt tmp)"
  unfolding download_audio_def
  by (intro preserves_then events_run events_print assms)

lemma events_validate_files:
  assumes "\<And>s m. P (Print s m)"
  shows "preserves (all_events P) (validate_files tmp)"
  unfolding validate_files_def
  by (intro preserves_then preserves_if preserves_sys_exit preserves_ret events_print assms)

lemma events_decrypt_tracks:
  assumes "\<And>s m. P (Print s m)"
    and "\<And>src dst out d. P (Spawn ([mp] @ key_args @ [src, dst]) out d)"
  shows "preserves (all_events P) (decrypt_tracks e mp tmp)"
  unfolding decrypt_tracks_def decrypt_video_def decrypt_audio_or_candidate_def
  by (intro preserves_then preserves_if preserves_candidates preserves_sys_exit preserves_ret
        events_run events_print assms)

lemma events_merge_tracks:
  assumes "\<And>s m. P (Print s m)"
    and "\<And>out d. P (Spawn [ff, ''-y'', ''-i'', video_dec tmp, ''-i'', audio_dec tmp, ''-c'', ''copy'', OUTPUT] out d)"
    and "P (Copy2 (video_dec tmp) OUTPUT)"
  shows "preserves (all_events P) (merge_tracks e ff tmp)"
  unfolding merge_tracks_def
  by (intro preserves_then preserves_if preserves_sys_exit events_run events_print events_copy2 assms)

lemma events_report_success:
  assumes "\<And>s m. P (Print s m)"
  shows "preserves (all_events P) (report_success tmp)"
  unfolding report_success_def
  by (intro preserves_then events_print assms)


section \<open>The events of a run\<close>

lemma events_pipeline:
  assumes "\<And>s m. P (Print s m)"
    and "\<And>out d. P (Spawn [yt, ''-F'', MPD] out d)"
    and "\<And>out d. P (Spawn [yt, ''-f'', ''bestvideo'', ''-o'', video_enc tmp, MPD] out d)"
    and "\<And>out d. P (Spawn [yt, ''-f'', ''bestaudio'', ''-o'', audio_enc tmp, MPD] out d)"
    and "\<And>src dst out d. P (Spawn ([mp] @ key_args @ [src, dst]) out d)"
    and "\<And>out d. P (Spawn [ff, ''-y'', ''-i'', video_dec tmp, ''-i'', audio_dec tmp, ''-c'', ''copy'', OUTPUT] out d)"
    and "P (Copy2 (video_dec tmp) OUTPUT)"
  shows "preserves (all_events P) (pipeline e yt mp ff tmp)"
  unfolding pipeline_def
  by (intro preserves_then events_list_formats events_download_video events_download_audio
        events_validate_files events_decrypt_tracks events_merge_tracks events_report_success assms)

lemma after_tool_check_eq:
  "after_tool_check e yt mp ff w =
     then_do (py_print Stdout (InfoTempDir (tmpdir e)))
       (try_except (pipeline e yt mp ff (tmpdir e)) handlers)
       (emit (Mkdtemp (tmpdir e)) (w\<lparr>fs := (fs w)\<lparr>dirs := dirs (fs w) @ [tmpdir e]\<rparr>\<rparr>))"
  by (simp add: after_tool_check_def bind_def mkdtemp_def Let_def)

lemma events_after_tool_check:
  assumes "\<And>s m. P (Print s m)"
    and "P (Mkdtemp (tmpdir e))"
    and "\<And>out d. P (Spawn [yt, ''-F'', MPD] out d)"
    and "\<And>out d. P (Spawn [yt, ''-f'', ''bestvideo'', ''-o'', video_enc (tmpdir e), MPD] out d)"
    and "\<And>out d. P (Spawn [yt, ''-f'', ''bestaudio'', ''-o'', audio_enc (tmpdir e), MPD] out d)"
    and "\<And>src dst out d. P (Spawn ([mp] @ key_args @ [src, dst]) out d)"
    and "\<And>out d. P (Spawn [ff, ''-y'', ''-i'', video_dec (tmpdir e), ''-i'', audio_dec (tmpdir e), ''-c'', ''copy'', OUTPUT] out d)"
    and "P (Copy2 (video_dec (tmpdir e)) OUTPUT)"
    and "all_events P w"
  shows "all_events P (snd (after_tool_check e yt mp ff w))"
proof -
  have 1: "preserves (all_events P)
     (then_do (py_print Stdout (InfoTempDir (tmpdir e)))
       (try_except (pipeline e yt mp ff (tmpdir e)) handlers))"
    by (intro preserves_then preserves_try events_print events_pipeline events_handlers assms(1-8))
  have 2: "all_events P (emit (Mkdtemp (tmpdir e)) (w\<lparr>fs := (fs w)\<lparr>dirs := dirs (fs w) @ [tmpdir e]\<rparr>\<rparr>))"
    using assms(2,9) by (simp add: all_events_def emit_def)
  from preservesD [OF 1 2] show ?thesis by (simp add: after_tool_check_eq)
qed

lemma key_args_eq: "key_args =
  [''--key'', ''833cac330e3f5243bb92b6b1a1f0b830:33eb631c7784af4a6cc9267ed8cbffb0'',
   ''--key'', ''af975c9bf15c521e8ca7946fa5d846eb:b5c26089aca357bfcbff3d6b4a0480a9'',
   ''--key'', ''4b4c8d2ef8885b7db7e8cbaa35157229:f860fe5061896ee121bf09b8050fea67'',
   ''--key'', ''6f5bc63cfb4c527983544e2be87c3ee3:b626a566974683745075058387989f9b'',
   ''--key'', ''829e92634faa53d3825d17710a11d8e7:68287246dd16c51cc36232d577f4108a'']"
  by (simp add: key_args_def KEYS_def)

lemma snd_call_main: "snd (call_main e d) = snd (main e (start d))"
  by (simp add: call_main_def case_prod_beta)

lemma fst_call_main: "fst (call_main e d) = exit_status (fst (main e (start d)))"
  by (simp add: call_main_def case_prod_beta)


section \<open>Files and disks; the run in which every tool succeeds; what is kept\<close>



lemma fst_set_write_entry: "fst ` set (write_entry p c es) = insert p (fst ` set es)"
  by (induction es) auto




lemma path_exists_paths: "path_exists p w \<longleftrightarrow> p \<in> paths (fs w)"
  by (simp add: path_exists_def paths_def)

lemma hoare_if_true:
  assumes "\<And>w. P w \<Longrightarrow> c w" and "hoare P a Q E"
  shows "hoare P (if_then_else c a b) Q E"
  using assms by (simp add: hoare_def if_then_else_def)

lemma hoare_print_fs: "hoare (\<lambda>w. R (fs w)) (py_print s m) (\<lambda>_ w. R (fs w)) E"
  by (simp add: hoare_def py_print_def emit_def)

lemma hoare_run_succeeds:
  assumes "always_succeeds e" and "\<And>n d. R d \<Longrightarrow> R' (snd (exec e n cmd d))"
  shows "hoare (\<lambda>w. R (fs w)) (run e cmd) (\<lambda>_ w. R' (fs w)) (\<lambda>_ _. False)"
proof (rule hoareI)
  fix w :: world assume pre: "R (fs w)"
  let ?n = "length (filter is_spawn (trace w))"
  obtain out d where x: "exec e ?n cmd (fs w) = (out, d)" by (cases "exec e ?n cmd (fs w)")
  with assms(1) have out: "out = Exited 0"
    by (metis always_succeeds_def fst_conv)
  from assms(2) [OF pre, of ?n] x have "R' d" by simp
  with x out show "case run e cmd w of (Inr a, w') \<Rightarrow> R' (fs w') | (Inl x, w') \<Rightarrow> False"
    by (simp add: run_def then_do_def bind_def py_print_def subprocess_run_def emit_def Let_def)
qed

lemma hoare_run_produces:
  assumes "always_succeeds e" and "keeps_files e" and "produces e cmd p"
  shows "hoare (\<lambda>w. A \<subseteq> paths (fs w)) (run e cmd) (\<lambda>_ w. insert p A \<subseteq> paths (fs w)) (\<lambda>_ _. False)"
proof (rule hoare_run_succeeds [OF assms(1)])
  fix n d assume "A \<subseteq> paths d"
  moreover from assms(2) have "paths d \<subseteq> paths (snd (exec e n cmd d))" by (simp add: keeps_files_def)
  moreover from assms(3) have "p \<in> paths (snd (exec e n cmd d))" by (simp add: produces_def)
  ultimately show "insert p A \<subseteq> paths (snd (exec e n cmd d))" by blast
qed

lemma hoare_run_keeps:
  assumes "always_succeeds e" and "keeps_files e"
  shows "hoare (\<lambda>w. A \<subseteq> paths (fs w)) (run e cmd) (\<lambda>_ w. A \<subseteq> paths (fs w)) (\<lambda>_ _. False)"
proof (rule hoare_run_succeeds [OF assms(1)])
  fix n d assume "A \<subseteq> paths d"
  moreover from assms(2) have "paths d \<subseteq> paths (snd (exec e n cmd d))" by (simp add: keeps_files_def)
  ultimately show "A \<subseteq> paths (snd (exec e n cmd d))" by blast
qed

lemma hoare_false_pre: "hoare (\<lambda>_. False) m Q E"
  by (simp add: hoare_def)

lemma hoare_post:
  assumes "hoare P m Q' E" and "\<And>a w. Q' a w \<Longrightarrow> Q a w"
  shows "hoare P m Q E"
proof (rule hoareI)
  fix w assume "P w"
  from hoareD [OF assms(1) this] assms(2)
  show "case m w of (Inr a, w') \<Rightarrow> Q a w' | (Inl x, w') \<Rightarrow> E x w'"
    by (auto split: prod.splits sum.splits)
qed

lemma list_formats_succeeds:
  assumes "always_succeeds e" and "keeps_files e"
  shows "hoare (\<lambda>w. A \<subseteq> paths (fs w)) (list_formats e yt) (\<lambda>_ w. A \<subseteq> paths (fs w)) (\<lambda>_ _. False)"
  unfolding list_formats_def
proof (rule hoare_then)
  show "hoare (\<lambda>w. A \<subseteq> paths (fs w)) (py_print Stdout StepListing) (\<lambda>_ w. A \<subseteq> paths (fs w)) (\<lambda>_ _. False)"
    by (rule hoare_print_fs [where R = "\<lambda>d. A \<subseteq> paths d"])
  show "hoare (\<lambda>w. A \<subseteq> paths (fs w))
     (try_except (run e [yt, ''-F'', MPD]) (\<lambda>x. case x of CalledProcessError _ _ \<Rightarrow> ret () | _ \<Rightarrow> raise x))
     (\<lambda>_ w. A \<subseteq> paths (fs w)) (\<lambda>_ _. False)"
    by (rule hoare_try [where E' = "\<lambda>_ _. False"]) (rule hoare_run_keeps [OF assms], rule hoare_false_pre)
qed

lemma download_succeeds:
  assumes "always_succeeds e" and "keeps_files e" and "produces e cmd p"
  shows "hoare (\<lambda>w. A \<subseteq> paths (fs w)) (then_do (py_print Stdout m) (run e cmd))
           (\<lambda>_ w. insert p A \<subseteq> paths (fs w)) (\<lambda>_ _. False)"
proof (rule hoare_then)
  show "hoare (\<lambda>w. A \<subseteq> paths (fs w)) (py_print Stdout m) (\<lambda>_ w. A \<subseteq> paths (fs w)) (\<lambda>_ _. False)"
    by (rule hoare_print_fs [where R = "\<lambda>d. A \<subseteq> paths d"])
  show "hoare (\<lambda>w. A \<subseteq> paths (fs w)) (run e cmd) (\<lambda>_ w. insert p A \<subseteq> paths (fs w)) (\<lambda>_ _. False)"
    by (rule hoare_run_produces [OF assms])
qed

lemma validate_files_passes:
  "hoare (\<lambda>w. {audio_enc tmp, video_enc tmp} \<subseteq> paths (fs w)) (validate_files tmp)
     (\<lambda>_ w. {audio_enc tmp, video_enc tmp} \<subseteq> paths (fs w)) (\<lambda>_ _. False)"
  by (rule hoareI)
     (simp add: validate_files_def then_do_def bind_def if_then_else_def ret_def path_exists_paths)

lemma decrypt_tracks_succeeds:
  assumes "always_succeeds e" and "keeps_files e"
    and "produces e ([mp] @ key_args @ [video_enc tmp, video_dec tmp]) (video_dec tmp)"
    and "produces e ([mp] @ key_args @ [audio_enc tmp, audio_dec tmp]) (audio_dec tmp)"
  shows "hoare (\<lambda>w. {audio_enc tmp, video_enc tmp} \<subseteq> paths (fs w)) (decrypt_tracks e mp tmp)
     (\<lambda>_ w. {audio_dec tmp, video_dec tmp} \<subseteq> paths (fs w)) (\<lambda>_ _. False)"
  unfolding decrypt_tracks_def
proof (rule hoare_then, rule hoare_print_fs [where R = "\<lambda>d. {audio_enc tmp, video_enc tmp} \<subseteq> paths d"],
    rule hoare_then)
  let ?A = "{audio_enc tmp, video_enc tmp}"
  show "hoare (\<lambda>w. ?A \<subseteq> paths (fs w)) (decrypt_video e mp tmp)
          (\<lambda>_ w. insert (video_dec tmp) ?A \<subseteq> paths (fs w)) (\<lambda>_ _. False)"
    unfolding decrypt_video_def
    by (rule hoare_if_true) (simp add: path_exists_paths, rule hoare_run_produces [OF assms(1,2,3)])
  have "hoare (\<lambda>w. insert (video_dec tmp) ?A \<subseteq> paths (fs w)) (decrypt_audio_or_candidate e mp tmp)
          (\<lambda>_ w. insert (audio_dec tmp) (insert (video_dec tmp) ?A) \<subseteq> paths (fs w)) (\<lambda>_ _. False)"
    unfolding decrypt_audio_or_candidate_def
    by (rule hoare_if_true) (simp add: path_exists_paths, rule hoare_run_produces [OF assms(1,2,4)])
  then show "hoare (\<lambda>w. insert (video_dec tmp) ?A \<subseteq> paths (fs w)) (decrypt_audio_or_candidate e mp tmp)
          (\<lambda>_ w. {audio_dec tmp, video_dec tmp} \<subseteq> paths (fs w)) (\<lambda>_ _. False)"
    by (rule hoare_post) simp
qed

lemma merge_tracks_succeeds:
  assumes "always_succeeds e" and "keeps_files e"
    and "produces e [ff, ''-y'', ''-i'', video_dec tmp, ''-i'', audio_dec tmp, ''-c'', ''copy'', OUTPUT] OUTPUT"
  shows "hoare (\<lambda>w. {audio_dec tmp, video_dec tmp} \<subseteq> paths (fs w)) (merge_tracks e ff tmp)
     (\<lambda>_ w. {OUTPUT} \<subseteq> paths (fs w)) (\<lambda>_ _. False)"
  unfolding merge_tracks_def
proof (rule hoare_then, rule hoare_print_fs [where R = "\<lambda>d. {audio_dec tmp, video_dec tmp} \<subseteq> paths d"],
    rule hoare_if_true)
  let ?A = "{audio_dec tmp, video_dec tmp}"
  let ?cmd = "[ff, ''-y'', ''-i'', video_dec tmp, ''-i'', audio_dec tmp, ''-c'', ''copy'', OUTPUT]"
  show "\<And>w. ?A \<subseteq> paths (fs w) \<Longrightarrow> path_exists (video_dec tmp) w \<and> path_exists (audio_dec tmp) w"
    by (simp add: path_exists_paths)
  have "hoare (\<lambda>w. ?A \<subseteq> paths (fs w)) (run e ?cmd) (\<lambda>_ w. insert OUTPUT ?A \<subseteq> paths (fs w)) (\<lambda>_ _. False)"
    by (rule hoare_run_produces [OF assms])
  then show "hoare (\<lambda>w. ?A \<subseteq> paths (fs w)) (run e ?cmd) (\<lambda>_ w. {OUTPUT} \<subseteq> paths (fs w)) (\<lambda>_ _. False)"
    by (rule hoare_post) simp
qed

lemma report_success_keeps:
  "hoare (\<lambda>w. R (fs w)) (report_success tmp) (\<lambda>_ w. R (fs w)) E"
  by (simp add: hoare_def report_success_def then_do_def bind_def py_print_def emit_def)

lemma pipeline_succeeds:
  assumes "always_succeeds e" and "keeps_files e"
    and "produces e [yt, ''-f'', ''bestvideo'', ''-o'', video_enc tmp, MPD] (video_enc tmp)"
    and "produces e [yt, ''-f'', ''bestaudio'', ''-o'', audio_enc tmp, MPD] (audio_enc tmp)"
    and "produces e ([mp] @ key_args @ [video_enc tmp, video_dec tmp]) (video_dec tmp)"
    and "produces e ([mp] @ key_args @ [audio_enc tmp, audio_dec tmp]) (audio_dec tmp)"
    and "produces e [ff, ''-y'', ''-i'', video_dec tmp, ''-i'', audio_dec tmp, ''-c'', ''copy'', OUTPUT] OUTPUT"
  shows "hoare (\<lambda>w. {} \<subseteq> paths (fs w)) (pipeline e yt mp ff tmp)
     (\<lambda>_ w. {OUTPUT} \<subseteq> paths (fs w)) (\<lambda>_ _. False)"
  unfolding pipeline_def download_video_def download_audio_def
  by (rule hoare_then, rule list_formats_succeeds [OF assms(1,2)],
      rule hoare_then, rule download_succeeds [OF assms(1,2,3)],
      rule hoare_then, rule download_succeeds [OF assms(1,2,4)],
      rule hoare_then, rule validate_files_passes,
      rule hoare_then, rule decrypt_tracks_succeeds [OF assms(1,2,5,6)],
      rule hoare_then, rule merge_tracks_succeeds [OF assms(1,2,7)],
      rule report_success_keeps [where R = "\<lambda>d. {OUTPUT} \<subseteq> paths d"])

lemma sub_disk_refl: "sub_disk d d"
  by (simp add: sub_disk_def)

lemma sub_disk_trans: "sub_disk a b \<Longrightarrow> sub_disk b c \<Longrightarrow> sub_disk a c"
  by (auto simp: sub_disk_def)

lemma paths_write_file: "paths (write_file p c d) = insert p (paths d)"
  by (simp add: paths_def write_file_def fst_set_write_entry)

lemma paths_dirs_update: "paths (d\<lparr>dirs := x\<rparr>) = paths d"
  by (simp add: paths_def)

lemma sub_disk_write_file: "sub_disk d (write_file p c d)"
proof -
  have "paths d \<subseteq> paths (write_file p c d)" by (simp add: paths_write_file subset_insertI)
  moreover have "dirs (write_file p c d) = dirs d" by (simp add: write_file_def)
  ultimately show ?thesis by (simp add: sub_disk_def)
qed

lemma preserves_which_or_exit:
  assumes "\<And>s m. preserves I (py_print s m)"
  shows "preserves I (which_or_exit e cmd)"
  unfolding which_or_exit_def
  by (auto split: option.splits intro!: preserves_then preserves_sys_exit preserves_ret assms)

lemma preserves_handlers:
  assumes "\<And>s m. preserves I (py_print s m)"
  shows "preserves I (handlers x)"
  by (cases x) (simp_all add: handlers_def preserves_then preserves_sys_exit preserves_raise assms)

lemma preserves_main:
  assumes "\<And>s m. preserves I (py_print s m)"
    and "\<And>cmd. preserves I (subprocess_run e cmd)"
    and "\<And>src dst. preserves I (copy2 src dst)"
    and "preserves I (mkdtemp e)"
  shows "preserves I (main e)"
  unfolding main_def after_tool_check_def pipeline_def list_formats_def download_video_def
    download_audio_def validate_files_def decrypt_tracks_def decrypt_video_def
    decrypt_audio_or_candidate_def merge_tracks_def report_success_def run_def
  by (intro preserves_bind preserves_then preserves_try preserves_if preserves_candidates
      preserves_ret preserves_sys_exit preserves_list_handler preserves_handlers
      preserves_which_or_exit assms)

lemma nothing_lost_grow:
  assumes "nothing_lost d w" and "sub_disk (fs w) d1"
    and "trace w' = trace w @ evs" and "fs w' = d1"
    and "\<And>cmd out d'. Spawn cmd out d' \<in> set evs \<Longrightarrow> sub_disk d' d1"
    and "\<And>t. Mkdtemp t \<in> set evs \<Longrightarrow> t \<in> set (dirs d1)"
  shows "nothing_lost d w'"
proof -
  have keep: "sub_disk y d1" if "sub_disk y (fs w)" for y
    using that assms(2) by (rule sub_disk_trans)
  from assms(1) have 1: "sub_disk d d1" by (simp add: nothing_lost_def keep)
  have 2: "sub_disk d' d1" if "Spawn cmd out d' \<in> set (trace w')" for cmd out d'
  proof (cases "Spawn cmd out d' \<in> set evs")
    case True
    then show ?thesis by (rule assms(5))
  next
    case False
    with that assms(3) have "Spawn cmd out d' \<in> set (trace w)" by simp
    with assms(1) have "sub_disk d' (fs w)" by (auto simp: nothing_lost_def)
    then show ?thesis by (rule keep)
  qed
  have 3: "t \<in> set (dirs d1)" if "Mkdtemp t \<in> set (trace w')" for t
  proof (cases "Mkdtemp t \<in> set evs")
    case True
    then show ?thesis by (rule assms(6))
  next
    case False
    with that assms(3) have "Mkdtemp t \<in> set (trace w)" by simp
    with assms(1) have "t \<in> set (dirs (fs w))" by (simp add: nothing_lost_def)
    with assms(2) show ?thesis by (auto simp: sub_disk_def)
  qed
  from 1 2 3 assms(4) show ?thesis unfolding nothing_lost_def by blast
qed

lemma nothing_lost_print: "preserves (nothing_lost d) (py_print s m)"
  by (simp add: preserves_def nothing_lost_def py_print_def emit_def)

lemma nothing_lost_mkdtemp: "preserves (nothing_lost d) (mkdtemp e)"
proof (rule preservesI)
  fix w assume inv: "nothing_lost d w"
  let ?d1 = "(fs w)\<lparr>dirs := dirs (fs w) @ [tmpdir e]\<rparr>"
  have "sub_disk (fs w) ?d1" by (auto simp: sub_disk_def paths_dirs_update)
  with inv have "nothing_lost d (emit (Mkdtemp (tmpdir e)) (w\<lparr>fs := ?d1\<rparr>))"
    by (rule nothing_lost_grow [where evs = "[Mkdtemp (tmpdir e)]"]) (simp_all add: emit_def)
  then show "nothing_lost d (snd (mkdtemp e w))" by (simp add: mkdtemp_def Let_def)
qed

lemma nothing_lost_copy2: "preserves (nothing_lost d) (copy2 src dst)"
proof (rule preservesI)
  fix w assume inv: "nothing_lost d w"
  show "nothing_lost d (snd (copy2 src dst w))"
  proof (cases "read_file (fs w) src")
    case None
    with inv show ?thesis by (simp add: copy2_def)
  next
    case (Some c)
    from inv sub_disk_write_file
    have "nothing_lost d (emit (Copy2 src dst) (w\<lparr>fs := write_file dst c (fs w)\<rparr>))"
      by (rule nothing_lost_grow [where evs = "[Copy2 src dst]"]) (simp_all add: emit_def)
    with Some show ?thesis by (simp add: copy2_def)
  qed
qed

lemma snd_subprocess_run:
  "exec e (length (filter is_spawn (trace w))) cmd (fs w) = (out, d1) \<Longrightarrow>
   snd (subprocess_run e cmd w) = emit (Spawn cmd out d1) (w\<lparr>fs := d1\<rparr>)"
  by (cases out) (simp_all add: subprocess_run_def Let_def)

lemma nothing_lost_subprocess_run:
  assumes "keeps_files e"
  shows "preserves (nothing_lost d) (subprocess_run e cmd)"
proof (rule preservesI)
  fix w assume inv: "nothing_lost d w"
  let ?n = "length (filter is_spawn (trace w))"
  obtain out d1 where x: "exec e ?n cmd (fs w) = (out, d1)" by (cases "exec e ?n cmd (fs w)")
  from assms have "sub_disk (fs w) (snd (exec e ?n cmd (fs w)))"
    by (simp add: keeps_files_def sub_disk_def)
  with x have step: "sub_disk (fs w) d1" by simp
  with inv have "nothing_lost d (emit (Spawn cmd out d1) (w\<lparr>fs := d1\<rparr>))"
    by (rule nothing_lost_grow [where evs = "[Spawn cmd out d1]"])
       (simp_all add: emit_def sub_disk_refl)
  with x show "nothing_lost d (snd (subprocess_run e cmd w))"
    by (simp add: snd_subprocess_run)
qed

section \<open>Steps as equations, and path-sensitive facts\<close>

lemma preserves_hoare:
  assumes "preserves I m"
  shows "hoare I m (\<lambda>_. I) (\<lambda>_. I)"
proof (rule hoareI)
  fix w assume "I w"
  with assms have "I (snd (m w))" by (rule preservesD)
  then show "case m w of (Inr a, w') \<Rightarrow> I w' | (Inl x, w') \<Rightarrow> I w'"
    by (cases "m w") (auto split: sum.splits)
qed

lemma hoare_preserves:
  assumes "hoare I m (\<lambda>_. I) (\<lambda>_. I)"
  shows "preserves I m"
proof (rule preservesI)
  fix w assume "I w"
  from hoareD [OF assms this] show "I (snd (m w))"
    by (cases "m w") (auto split: sum.splits)
qed

lemma path_name_child:
  assumes "CHR ''/'' \<notin> set name"
  shows "path_name (child dir name) = name"
proof -
  have "takeWhile (\<lambda>c. c \<noteq> CHR ''/'') (rev name @ CHR ''/'' # rev dir) = rev name"
  proof -
    have "takeWhile (\<lambda>c. c \<noteq> CHR ''/'') (rev name @ CHR ''/'' # rev dir) =
          takeWhile (\<lambda>c. c \<noteq> CHR ''/'') (rev name)"
      by (rule takeWhile_tail) simp
    also have "\<dots> = rev name"
      using assms by (auto simp: takeWhile_eq_all_conv)
    finally show ?thesis .
  qed
  then show ?thesis by (simp add: path_name_def child_def)
qed

lemma path_name_video_enc: "path_name (video_enc tmp) = ''video.encrypted.mp4''"
  unfolding video_enc_def by (rule path_name_child) simp

lemma path_name_video_dec: "path_name (video_dec tmp) = ''video.decrypted.mp4''"
  unfolding video_dec_def by (rule path_name_child) simp

lemma mem_merged_candidates:
  "p \<in> set (merged_candidates tmp w) \<longleftrightarrow>
     path_exists p w \<and> p = child tmp (path_name p) \<and> ends_with (path_name p) ''.mp4'' \<and>
     path_name p \<noteq> ''video.decrypted.mp4''"
  by (auto simp: merged_candidates_def glob_mp4_def path_exists_def path_name_video_dec)

lemma video_enc_is_candidate:
  assumes "path_exists (video_enc tmp) w"
  shows "video_enc tmp \<in> set (merged_candidates tmp w)"
proof -
  have "video_enc tmp = child tmp (path_name (video_enc tmp))"
    by (simp add: path_name_video_enc) (simp add: video_enc_def)
  moreover have "ends_with (path_name (video_enc tmp)) ''.mp4''"
    by (simp add: path_name_video_enc ends_with_def)
  moreover have "path_name (video_enc tmp) \<noteq> ''video.decrypted.mp4''"
    by (simp add: path_name_video_enc)
  ultimately show ?thesis using assms by (simp add: mem_merged_candidates)
qed

lemma run_eq:
  assumes "exec e (length (filter is_spawn (trace w))) cmd (fs w) = (out, d1)"
  shows "run e cmd w =
           ((case out of
               Exited rc \<Rightarrow> if rc \<noteq> 0 then Inl (CalledProcessError rc cmd) else Inr ()
             | SpawnFailed \<Rightarrow> Inl OtherError),
            \<lparr>fs = d1, trace = trace w @ [Print Stdout (Echo cmd), Spawn cmd out d1]\<rparr>)"
  using assms
  by (cases out)
     (simp_all add: run_def then_do_def bind_def py_print_def subprocess_run_def emit_def Let_def)

lemma snd_cases:
  assumes "I (snd r)"
  shows "case r of (Inr a, w') \<Rightarrow> I w' | (Inl x, w') \<Rightarrow> I w'"
  using assms by (cases r) (auto split: sum.splits)

lemma hoare_run_inv:
  assumes "\<And>n d. R d \<Longrightarrow> R (snd (exec e n cmd d))"
    and "P (Print Stdout (Echo cmd))" and "\<And>out d. P (Spawn cmd out d)"
  shows "hoare (\<lambda>w. all_events P w \<and> R (fs w)) (run e cmd)
           (\<lambda>_ w. all_events P w \<and> R (fs w)) (\<lambda>_ w. all_events P w)"
proof (rule hoareI)
  fix w :: world assume pre: "all_events P w \<and> R (fs w)"
  let ?n = "length (filter is_spawn (trace w))"
  obtain out d1 where x: "exec e ?n cmd (fs w) = (out, d1)" by (cases "exec e ?n cmd (fs w)")
  from pre assms(1) [of "fs w" ?n] x have r: "R d1" by simp
  from pre assms(2,3) have ev: "all_events P \<lparr>fs = d1, trace = trace w @ [Print Stdout (Echo cmd), Spawn cmd out d1]\<rparr>"
    by (simp add: all_events_def)
  from r ev show "case run e cmd w of (Inr a, w') \<Rightarrow> all_events P w' \<and> R (fs w') | (Inl x, w') \<Rightarrow> all_events P w'"
    by (cases out) (auto simp: run_eq [OF x])
qed

lemma no_candidate_error_in_pipeline:
  assumes "keeps_files e"
  shows "preserves (all_events (\<lambda>ev. ev \<noteq> Print Stderr ErrNoCandidate)) (pipeline e yt mp ff tmp)"
proof -
  let ?P = "\<lambda>ev. ev \<noteq> Print Stderr ErrNoCandidate"
  let ?J = "all_events ?P"
  let ?v = "video_enc tmp"
  let ?JV = "\<lambda>w. ?J w \<and> ?v \<in> paths (fs w)"
  have list: "hoare ?J (list_formats e yt) (\<lambda>_. ?J) (\<lambda>_. ?J)"
    unfolding list_formats_def
    by (rule preserves_hoare)
       (intro preserves_then preserves_try events_run events_print preserves_list_handler, simp_all)
  have video: "hoare ?J (download_video e yt tmp) (\<lambda>_. ?J) (\<lambda>_. ?J)"
    unfolding download_video_def
    by (rule preserves_hoare) (intro preserves_then events_run events_print, simp_all)
  have audio: "hoare ?J (download_audio e yt tmp) (\<lambda>_. ?J) (\<lambda>_. ?J)"
    unfolding download_audio_def
    by (rule preserves_hoare) (intro preserves_then events_run events_print, simp_all)
  have validate: "hoare ?J (validate_files tmp) (\<lambda>_. ?JV) (\<lambda>_. ?J)"
    by (rule hoareI)
       (simp add: validate_files_def then_do_def bind_def if_then_else_def py_print_def
          sys_exit_def raise_def ret_def emit_def all_events_def path_exists_paths)
  have step_print: "hoare ?JV (py_print Stdout StepDecrypt) (\<lambda>_. ?JV) (\<lambda>_. ?J)"
    by (rule hoareI) (simp add: py_print_def emit_def all_events_def)
  have kept: "?v \<in> paths (snd (exec e n cmd d))" if "?v \<in> paths d" for n cmd d
    using assms that by (auto simp: keeps_files_def)
  have dv: "hoare ?JV (decrypt_video e mp tmp) (\<lambda>_. ?JV) (\<lambda>_. ?J)"
    unfolding decrypt_video_def
    by (rule hoare_if_true, simp add: path_exists_paths,
        rule hoare_run_inv [where R = "\<lambda>d. ?v \<in> paths d"], rule kept, simp_all)
  have dac: "hoare ?JV (decrypt_audio_or_candidate e mp tmp) (\<lambda>_. ?J) (\<lambda>_. ?J)"
  proof (rule hoareI, rule snd_cases)
    fix w assume pre: "?J w \<and> ?v \<in> paths (fs w)"
    have runs: "preserves ?J (run e c)" for c
      by (intro events_run) simp_all
    show "?J (snd (decrypt_audio_or_candidate e mp tmp w))"
    proof (cases "path_exists (audio_enc tmp) w")
      case True
      with preservesD [OF runs, of w] pre show ?thesis
        by (simp add: decrypt_audio_or_candidate_def if_then_else_def)
    next
      case False
      from pre have "?v \<in> set (merged_candidates tmp w)"
        by (simp add: video_enc_is_candidate path_exists_paths)
      then obtain c cs where cand: "merged_candidates tmp w = c # cs"
        by (cases "merged_candidates tmp w") auto
      have "preserves ?J (then_do (py_print Stdout (InfoCandidates (c # cs)))
               (run e ([mp] @ key_args @ [c, video_dec tmp])))"
        by (intro preserves_then events_print runs) simp
      from preservesD [OF this, of w] pre False cand show ?thesis
        by (simp add: decrypt_audio_or_candidate_def if_then_else_def)
    qed
  qed
  have decrypt: "hoare ?JV (decrypt_tracks e mp tmp) (\<lambda>_. ?J) (\<lambda>_. ?J)"
    unfolding decrypt_tracks_def
    by (rule hoare_then [OF step_print], rule hoare_then [OF dv], rule dac)
  have merge: "hoare ?J (merge_tracks e ff tmp) (\<lambda>_. ?J) (\<lambda>_. ?J)"
    unfolding merge_tracks_def
    by (rule preserves_hoare)
       (intro preserves_then preserves_if preserves_sys_exit events_run events_print events_copy2,
        simp_all)
  have report: "hoare ?J (report_success tmp) (\<lambda>_. ?J) (\<lambda>_. ?J)"
    unfolding report_success_def
    by (rule preserves_hoare) (intro preserves_then events_print, simp_all)
  have "hoare ?J (pipeline e yt mp ff tmp) (\<lambda>_. ?J) (\<lambda>_. ?J)"
    unfolding pipeline_def
    by (rule hoare_then [OF list], rule hoare_then [OF video], rule hoare_then [OF audio],
        rule hoare_then [OF validate], rule hoare_then [OF decrypt], rule hoare_then [OF merge],
        rule report)
  then show ?thesis by (rule hoare_preserves)
qed

lemma no_candidate_error_unless_files_removed:
  assumes "keeps_files e"
  shows "Print Stderr ErrNoCandidate \<notin> set (trace (snd (call_main e d)))"
proof -
  let ?P = "\<lambda>ev. ev \<noteq> Print Stderr ErrNoCandidate"
  have h: "preserves (all_events ?P) (handlers x)" for x
    by (cases x) (auto simp: handlers_def intro!: preserves_then preserves_sys_exit preserves_raise events_print)
  have "preserves (all_events ?P) (main e)"
    unfolding main_def after_tool_check_def which_or_exit_def
    by (intro preserves_bind preserves_then preserves_try events_print events_mkdtemp h
          no_candidate_error_in_pipeline assms)
       (auto split: option.splits intro!: preserves_then preserves_sys_exit preserves_ret events_print)
  moreover have "all_events ?P (start d)" by (simp add: all_events_def start_def)
  ultimately have "all_events ?P (snd (main e (start d)))" by (rule preservesD)
  then show ?thesis by (auto simp: all_events_def snd_call_main)
qed

lemma commands_of_append: "commands_of (xs @ ys) = commands_of xs @ commands_of ys"
  by (induction xs rule: commands_of.induct) simp_all

lemma spawn_in_commands: "Spawn cmd out d \<in> set evs \<Longrightarrow> cmd \<in> set (commands_of evs)"
  by (induction evs rule: commands_of.induct) auto

lemma hoare_exn:
  assumes "hoare P m Q E'" and "\<And>x w. E' x w \<Longrightarrow> E x w"
  shows "hoare P m Q E"
proof (rule hoareI)
  fix w assume "P w"
  from hoareD [OF assms(1) this] assms(2)
  show "case m w of (Inr a, w') \<Rightarrow> Q a w' | (Inl x, w') \<Rightarrow> E x w'"
    by (auto split: prod.splits sum.splits)
qed

lemma print_run_eq:
  assumes "exec e (length (filter is_spawn (trace w))) cmd (fs w) = (out, d1)"
  shows "then_do (py_print s m) (run e cmd) w =
           ((case out of
               Exited rc \<Rightarrow> if rc \<noteq> 0 then Inl (CalledProcessError rc cmd) else Inr ()
             | SpawnFailed \<Rightarrow> Inl OtherError),
            \<lparr>fs = d1, trace = trace w @ [Print s m, Print Stdout (Echo cmd), Spawn cmd out d1]\<rparr>)"
proof -
  have "exec e (length (filter is_spawn (trace (emit (Print s m) w)))) cmd (fs (emit (Print s m) w)) = (out, d1)"
    using assms by (simp add: emit_def)
  from run_eq [OF this] show ?thesis
    by (simp add: then_do_def bind_def py_print_def emit_def)
qed

lemma list_formats_eq:
  assumes "exec e (length (filter is_spawn (trace w))) [yt, ''-F'', MPD] (fs w) = (out, d1)"
  shows "list_formats e yt w =
           ((case out of Exited rc \<Rightarrow> Inr () | SpawnFailed \<Rightarrow> Inl OtherError),
            \<lparr>fs = d1, trace = trace w @
               [Print Stdout StepListing, Print Stdout (Echo [yt, ''-F'', MPD]), Spawn [yt, ''-F'', MPD] out d1]\<rparr>)"
proof -
  have "exec e (length (filter is_spawn (trace (emit (Print Stdout StepListing) w)))) [yt, ''-F'', MPD]
          (fs (emit (Print Stdout StepListing) w)) = (out, d1)"
    using assms by (simp add: emit_def)
  from run_eq [OF this] show ?thesis
    by (cases out)
       (simp_all add: list_formats_def then_do_def bind_def try_except_def py_print_def emit_def
          ret_def raise_def)
qed

lemma handlers_eq:
  "handlers (CalledProcessError rc cmd) w =
     (Inl (SystemExit 1), \<lparr>fs = fs w, trace = trace w @ [Print Stderr (ErrCommandFailed rc cmd), Print Stdout CheckLogs]\<rparr>)"
  "handlers OtherError w =
     (Inl (SystemExit 1), \<lparr>fs = fs w, trace = trace w @ [Print Stderr ErrUnexpected]\<rparr>)"
  "handlers (SystemExit n) w = (Inl (SystemExit n), w)"
  by (simp_all add: handlers_def then_do_def bind_def py_print_def sys_exit_def raise_def emit_def)

lemma main_found:
  assumes "which e ''yt-dlp'' = Some yt" and "yt \<noteq> []"
    and "which e ''mp4decrypt'' = Some mp" and "mp \<noteq> []"
    and "which e ''ffmpeg'' = Some ff" and "ff \<noteq> []"
  shows "main e (start d) =
           try_except (pipeline e yt mp ff (tmpdir e)) handlers
             \<lparr>fs = d\<lparr>dirs := dirs d @ [tmpdir e]\<rparr>,
                trace = [Mkdtemp (tmpdir e), Print Stdout (InfoTempDir (tmpdir e))]\<rparr>"
  using assms
  by (simp add: main_def bind_def which_or_exit_found after_tool_check_eq then_do_def py_print_def
      emit_def start_def)

lemma failed_video_download_stops_the_run:
  assumes "which e ''yt-dlp'' = Some yt" and "yt \<noteq> []"
    and "which e ''mp4decrypt'' = Some mp" and "mp \<noteq> []"
    and "which e ''ffmpeg'' = Some ff" and "ff \<noteq> []"
    and "Spawn [y, ''-f'', ''bestvideo'', ''-o'', video_enc (tmpdir e), MPD] (Exited rc) d'
           \<in> set (trace (snd (main e (start d))))"
    and "rc \<noteq> 0"
  shows "fst (main e (start d)) = Inl (SystemExit 1) \<and>
         commands_of (trace (snd (main e (start d)))) =
           [[yt, ''-F'', MPD], [yt, ''-f'', ''bestvideo'', ''-o'', video_enc (tmpdir e), MPD]]"
proof -
  let ?t = "tmpdir e"
  let ?L = "[yt, ''-F'', MPD]"
  let ?V = "[yt, ''-f'', ''bestvideo'', ''-o'', video_enc ?t, MPD]"
  define P where "P ev \<longleftrightarrow>
     \<not> (\<exists>y rc d. rc \<noteq> 0 \<and> ev = Spawn [y, ''-f'', ''bestvideo'', ''-o'', video_enc ?t, MPD] (Exited rc) d)" for ev
  let ?N = "all_events P"
  let ?E = "\<lambda>x w. ?N w \<or> ((\<exists>rc. x = CalledProcessError rc ?V) \<and> commands_of (trace w) = [?L, ?V])"
  let ?F = "\<lambda>x w. ?N w \<or> (x = SystemExit 1 \<and> commands_of (trace w) = [?L, ?V])"
  have prints: "P (Print s m)" for s m by (simp add: P_def)
  have list: "hoare (\<lambda>w. ?N w \<and> commands_of (trace w) = []) (list_formats e yt)
                (\<lambda>_ w. ?N w \<and> commands_of (trace w) = [?L]) ?E"
  proof (rule hoareI)
    fix w :: world assume pre: "?N w \<and> commands_of (trace w) = []"
    obtain out d1 where x: "exec e (length (filter is_spawn (trace w))) ?L (fs w) = (out, d1)"
      by (cases "exec e (length (filter is_spawn (trace w))) ?L (fs w)")
    from pre show "case list_formats e yt w of
        (Inr a, w') \<Rightarrow> ?N w' \<and> commands_of (trace w') = [?L] | (Inl x, w') \<Rightarrow> ?E x w'"
      by (cases out) (auto simp: list_formats_eq [OF x] all_events_def P_def commands_of_append)
  qed
  have video: "hoare (\<lambda>w. ?N w \<and> commands_of (trace w) = [?L]) (download_video e yt ?t) (\<lambda>_. ?N) ?E"
  proof (rule hoareI)
    fix w :: world assume pre: "?N w \<and> commands_of (trace w) = [?L]"
    obtain out d1 where x: "exec e (length (filter is_spawn (trace w))) ?V (fs w) = (out, d1)"
      by (cases "exec e (length (filter is_spawn (trace w))) ?V (fs w)")
    from pre show "case download_video e yt ?t w of (Inr a, w') \<Rightarrow> ?N w' | (Inl x, w') \<Rightarrow> ?E x w'"
      by (cases out)
         (auto simp: download_video_def print_run_eq [OF x] all_events_def P_def commands_of_append)
  qed
  have rest: "hoare ?N
     (then_do (download_audio e yt ?t)
        (then_do (validate_files ?t)
           (then_do (decrypt_tracks e mp ?t)
              (then_do (merge_tracks e ff ?t) (report_success ?t)))))
     (\<lambda>_. ?N) ?E"
    by (rule hoare_exn [where E' = "\<lambda>_. ?N"], rule preserves_hoare)
       (intro preserves_then events_download_audio events_validate_files events_decrypt_tracks
          events_merge_tracks events_report_success prints, simp_all add: P_def key_args_eq)
  have pipeline: "hoare (\<lambda>w. ?N w \<and> commands_of (trace w) = []) (pipeline e yt mp ff ?t) (\<lambda>_. ?N) ?E"
    unfolding pipeline_def
    by (rule hoare_then [OF list], rule hoare_then [OF video], rule rest)
  have handlers: "hoare (?E x) (handlers x) (\<lambda>_. ?N) ?F" for x
    by (rule hoareI, cases x)
       (auto simp: handlers_eq all_events_def P_def commands_of_append)
  have "hoare (\<lambda>w. ?N w \<and> commands_of (trace w) = [])
          (try_except (pipeline e yt mp ff ?t) handlers) (\<lambda>_. ?N) ?F"
    by (rule hoare_try [OF pipeline handlers])
  from hoareD [OF this, of "\<lparr>fs = d\<lparr>dirs := dirs d @ [?t]\<rparr>,
      trace = [Mkdtemp ?t, Print Stdout (InfoTempDir ?t)]\<rparr>"]
  have fin: "case main e (start d) of (Inr a, w') \<Rightarrow> ?N w' | (Inl x, w') \<Rightarrow> ?F x w'"
    by (simp add: main_found [OF assms(1-6)] all_events_def P_def)
  from assms(7,8) have "\<not> ?N (snd (main e (start d)))"
    by (auto simp: all_events_def P_def)
  with fin show ?thesis
    by (cases "main e (start d)") (auto split: sum.splits)
qed

section \<open>The listing, and failures of the other subprocesses\<close>

lemma try_then_eq:
  "try_except (then_do a b) h w =
     (case a w of (Inl x, w1) \<Rightarrow> h x w1 | (Inr u, w1) \<Rightarrow> try_except b h w1)"
  by (simp add: try_except_def then_do_def bind_def split: prod.splits sum.splits)

lemma hoare_if_both:
  assumes "hoare P a Q E" and "hoare P b Q E"
  shows "hoare P (if_then_else c a b) Q E"
  using assms by (simp add: hoare_def if_then_else_def)

lemma hoare_candidates:
  assumes "\<And>c cs. hoare P (f c cs) Q E" and "hoare P g Q E"
  shows "hoare P (\<lambda>w. case merged_candidates tmp w of c # cs \<Rightarrow> f c cs w | [] \<Rightarrow> g w) Q E"
proof (rule hoareI)
  fix w assume pre: "P w"
  show "case (case merged_candidates tmp w of c # cs \<Rightarrow> f c cs w | [] \<Rightarrow> g w) of
          (Inr a, w') \<Rightarrow> Q a w' | (Inl x, w') \<Rightarrow> E x w'"
  proof (cases "merged_candidates tmp w")
    case Nil
    with hoareD [OF assms(2) pre] show ?thesis by simp
  next
    case (Cons c cs)
    with hoareD [OF assms(1) pre, of c cs] show ?thesis by simp
  qed
qed

lemma hoare_inv_then:
  assumes "hoare N a (\<lambda>_. N) E" and "hoare N b (\<lambda>_. N) E"
  shows "hoare N (then_do a b) (\<lambda>_. N) E"
  using assms by (rule hoare_then)

lemma hoare_inv_ret: "hoare N (ret a) (\<lambda>_. N) E"
  by (simp add: hoare_def ret_def)

text \<open>An invariant with an exceptional assertion goes through the steps after the listing.\<close>

lemma hoare_inv_after_listing:
  assumes print: "\<And>s m. hoare N (py_print s m) (\<lambda>_. N) E"
    and run: "\<And>c. hoare N (run e c) (\<lambda>_. N) E"
    and exit: "hoare N (sys_exit 1 :: unit action) (\<lambda>_. N) E"
    and copy: "\<And>src dst. hoare N (copy2 src dst) (\<lambda>_. N) E"
  shows "hoare N
     (then_do (download_video e yt tmp)
        (then_do (download_audio e yt tmp)
           (then_do (validate_files tmp)
              (then_do (decrypt_tracks e mp tmp)
                 (then_do (merge_tracks e ff tmp) (report_success tmp))))))
     (\<lambda>_. N) E"
  unfolding download_video_def download_audio_def validate_files_def decrypt_tracks_def
    decrypt_video_def decrypt_audio_or_candidate_def merge_tracks_def report_success_def
  by (intro hoare_inv_then hoare_if_both hoare_candidates hoare_inv_ret print run exit copy)


lemma pipeline_after_listing:
  assumes "exec e (length (filter is_spawn (trace w))) [yt, ''-F'', MPD] (fs w) = (Exited rc, d1)"
  shows "try_except (pipeline e yt mp ff tmp) handlers w =
     try_except
       (then_do (download_video e yt tmp)
          (then_do (download_audio e yt tmp)
             (then_do (validate_files tmp)
                (then_do (decrypt_tracks e mp tmp)
                   (then_do (merge_tracks e ff tmp) (report_success tmp))))))
       handlers
       \<lparr>fs = d1, trace = trace w @
          [Print Stdout StepListing, Print Stdout (Echo [yt, ''-F'', MPD]),
           Spawn [yt, ''-F'', MPD] (Exited rc) d1]\<rparr>"
  by (simp add: pipeline_def try_then_eq list_formats_eq [OF assms])

lemma run_continues_after_listing:
  assumes "which e ''yt-dlp'' = Some yt" and "yt \<noteq> []"
    and "which e ''mp4decrypt'' = Some mp" and "mp \<noteq> []"
    and "which e ''ffmpeg'' = Some ff" and "ff \<noteq> []"
    and "exec e 0 [yt, ''-F'', MPD] (d\<lparr>dirs := dirs d @ [tmpdir e]\<rparr>) = (Exited rc, d1)"
  shows "\<exists>out d2 post. trace (snd (main e (start d))) =
     [Mkdtemp (tmpdir e), Print Stdout (InfoTempDir (tmpdir e)),
      Print Stdout StepListing, Print Stdout (Echo [yt, ''-F'', MPD]),
      Spawn [yt, ''-F'', MPD] (Exited rc) d1,
      Print Stdout StepVideo,
      Print Stdout (Echo [yt, ''-f'', ''bestvideo'', ''-o'', video_enc (tmpdir e), MPD]),
      Spawn [yt, ''-f'', ''bestvideo'', ''-o'', video_enc (tmpdir e), MPD] out d2] @ post"
proof -
  let ?t = "tmpdir e"
  let ?L = "[yt, ''-F'', MPD]"
  let ?V = "[yt, ''-f'', ''bestvideo'', ''-o'', video_enc ?t, MPD]"
  let ?T1 = "[Mkdtemp ?t, Print Stdout (InfoTempDir ?t), Print Stdout StepListing,
              Print Stdout (Echo ?L), Spawn ?L (Exited rc) d1]"
  let ?K = "\<lambda>w. \<exists>out d2 post. trace w =
              ?T1 @ [Print Stdout StepVideo, Print Stdout (Echo ?V), Spawn ?V out d2] @ post"
  let ?w0 = "\<lparr>fs = d\<lparr>dirs := dirs d @ [?t]\<rparr>, trace = [Mkdtemp ?t, Print Stdout (InfoTempDir ?t)]\<rparr>"
  let ?w1 = "\<lparr>fs = d1, trace = ?T1\<rparr>"
  let ?rest = "then_do (download_audio e yt ?t)
             (then_do (validate_files ?t)
                (then_do (decrypt_tracks e mp ?t)
                   (then_do (merge_tracks e ff ?t) (report_success ?t))))"
  have x: "exec e (length (filter is_spawn (trace ?w0))) ?L (fs ?w0) = (Exited rc, d1)"
    using assms(7) by simp
  have eq: "main e (start d) = try_except (then_do (download_video e yt ?t) ?rest) handlers ?w1"
    by (simp add: main_found [OF assms(1-6)] pipeline_after_listing [OF x])
  have kp: "preserves ?K (py_print s m)" for s m
    by (auto simp: preserves_def py_print_def emit_def)
  have ks: "preserves ?K (subprocess_run e c)" for c
  proof (rule preservesI)
    fix w :: world assume "?K w"
    obtain out d2 where y: "exec e (length (filter is_spawn (trace w))) c (fs w) = (out, d2)"
      by (cases "exec e (length (filter is_spawn (trace w))) c (fs w)")
    from \<open>?K w\<close> show "?K (snd (subprocess_run e c w))"
      by (auto simp: snd_subprocess_run [OF y] emit_def)
  qed
  have kc: "preserves ?K (copy2 src dst)" for src dst
    by (auto simp: preserves_def copy2_def emit_def split: option.splits)
  have rest: "preserves ?K ?rest"
    unfolding download_audio_def validate_files_def decrypt_tracks_def decrypt_video_def
      decrypt_audio_or_candidate_def merge_tracks_def report_success_def run_def
    by (intro preserves_then preserves_if preserves_candidates preserves_ret preserves_sys_exit
        kp ks kc)
  have video: "hoare (\<lambda>w. w = ?w1) (download_video e yt ?t) (\<lambda>_. ?K) (\<lambda>_. ?K)"
  proof (rule hoareI)
    fix w :: world assume w: "w = ?w1"
    obtain out d2 where y: "exec e (length (filter is_spawn (trace ?w1))) ?V (fs ?w1) = (out, d2)"
      by (cases "exec e (length (filter is_spawn (trace ?w1))) ?V (fs ?w1)")
    have "?K (snd (download_video e yt ?t ?w1))"
      by (simp add: download_video_def print_run_eq [OF y])
    then show "case download_video e yt ?t w of (Inr a, w') \<Rightarrow> ?K w' | (Inl x, w') \<Rightarrow> ?K w'"
      unfolding w by (rule snd_cases)
  qed
  have "hoare (\<lambda>w. w = ?w1) (try_except (then_do (download_video e yt ?t) ?rest) handlers)
          (\<lambda>_. ?K) (\<lambda>_. ?K)"
    by (rule hoare_try [where E' = "\<lambda>_. ?K"], rule hoare_then [OF video],
        rule preserves_hoare [OF rest], rule preserves_hoare, rule preserves_handlers [OF kp])
  from hoareD [OF this, of ?w1] have "?K (snd (main e (start d)))"
    by (cases "main e (start d)") (auto simp: eq split: sum.splits)
  then show ?thesis by simp
qed


lemma only_the_listing_may_fail:
  assumes "which e ''yt-dlp'' = Some yt" and "yt \<noteq> []"
    and "which e ''mp4decrypt'' = Some mp" and "mp \<noteq> []"
    and "which e ''ffmpeg'' = Some ff" and "ff \<noteq> []"
    and "Spawn cmd (Exited rc) d' \<in> set (trace (snd (main e (start d))))"
    and "rc \<noteq> 0" and "cmd \<noteq> [yt, ''-F'', MPD]"
  shows "fst (main e (start d)) = Inl (SystemExit 1) \<and>
         (\<exists>pre. trace (snd (main e (start d))) =
            pre @ [Spawn cmd (Exited rc) d', Print Stderr (ErrCommandFailed rc cmd), Print Stdout CheckLogs])"
proof -
  let ?t = "tmpdir e"
  let ?L = "[yt, ''-F'', MPD]"
  define P where "P ev \<longleftrightarrow> \<not> (\<exists>c r x. r \<noteq> 0 \<and> c \<noteq> ?L \<and> ev = Spawn c (Exited r) x)" for ev
  define N where "N = all_events P"
  define E where "E x w \<longleftrightarrow> N w \<or>
     (\<exists>c r y pre. x = CalledProcessError r c \<and> trace w = pre @ [Spawn c (Exited r) y] \<and>
        (\<forall>ev \<in> set pre. P ev))" for x w
  define F where "F x w \<longleftrightarrow> N w \<or>
     (x = SystemExit 1 \<and>
      (\<exists>c r y pre. trace w = pre @ [Spawn c (Exited r) y, Print Stderr (ErrCommandFailed r c),
          Print Stdout CheckLogs] \<and> (\<forall>ev \<in> set pre. P ev)))" for x w
  have print: "hoare N (py_print s m) (\<lambda>_. N) E" for s m
    by (simp add: hoare_def py_print_def emit_def N_def all_events_def P_def)
  have exit: "hoare N (sys_exit 1 :: unit action) (\<lambda>_. N) E"
    by (simp add: hoare_def sys_exit_def raise_def E_def)
  have copy: "hoare N (copy2 src dst) (\<lambda>_. N) E" for src dst
    by (auto simp: hoare_def copy2_def emit_def N_def E_def all_events_def P_def split: option.splits)
  have run: "hoare N (run e c) (\<lambda>_. N) E" for c
  proof (rule hoareI)
    fix w :: world assume pre: "N w"
    obtain out d1 where x: "exec e (length (filter is_spawn (trace w))) c (fs w) = (out, d1)"
      by (cases "exec e (length (filter is_spawn (trace w))) c (fs w)")
    show "case run e c w of (Inr a, w') \<Rightarrow> N w' | (Inl x, w') \<Rightarrow> E x w'"
    proof (cases out)
      case SpawnFailed
      with pre show ?thesis
        by (simp add: run_eq [OF x] E_def N_def all_events_def P_def)
    next
      case (Exited r)
      show ?thesis
      proof (cases "r = 0")
        case True
        with Exited pre show ?thesis
          by (simp add: run_eq [OF x] N_def all_events_def P_def)
      next
        case False
        have "trace w @ [Print Stdout (Echo c), Spawn c (Exited r) d1] =
              (trace w @ [Print Stdout (Echo c)]) @ [Spawn c (Exited r) d1]" by simp
        moreover from pre have "\<forall>ev \<in> set (trace w @ [Print Stdout (Echo c)]). P ev"
          by (simp add: N_def all_events_def P_def)
        ultimately have "E (CalledProcessError r c)
            \<lparr>fs = d1, trace = trace w @ [Print Stdout (Echo c), Spawn c (Exited r) d1]\<rparr>"
          unfolding E_def by (intro disjI2 exI conjI) (rule refl, simp, assumption)
        with False Exited show ?thesis by (simp add: run_eq [OF x])
      qed
    qed
  qed
  have list: "hoare N (list_formats e yt) (\<lambda>_. N) E"
  proof (rule hoareI)
    fix w :: world assume pre: "N w"
    obtain out d1 where x: "exec e (length (filter is_spawn (trace w))) ?L (fs w) = (out, d1)"
      by (cases "exec e (length (filter is_spawn (trace w))) ?L (fs w)")
    from pre show "case list_formats e yt w of (Inr a, w') \<Rightarrow> N w' | (Inl x, w') \<Rightarrow> E x w'"
      by (cases out) (auto simp: list_formats_eq [OF x] E_def N_def all_events_def P_def)
  qed
  have pipeline: "hoare N (pipeline e yt mp ff ?t) (\<lambda>_. N) E"
    unfolding pipeline_def
    by (rule hoare_inv_then [OF list], rule hoare_inv_after_listing [OF print run exit copy])
  have handlers: "hoare (E x) (handlers x) (\<lambda>_. N) F" for x
  proof (rule hoareI)
    fix w :: world assume pre: "E x w"
    show "case handlers x w of (Inr a, w') \<Rightarrow> N w' | (Inl x, w') \<Rightarrow> F x w'"
    proof (cases x)
      case (SystemExit n)
      with pre show ?thesis by (simp add: handlers_eq E_def F_def)
    next
      case OtherError
      with pre show ?thesis by (simp add: handlers_eq E_def F_def N_def all_events_def P_def)
    next
      case (CalledProcessError r c)
      from pre consider (n) "N w" | (bad) y pre where "trace w = pre @ [Spawn c (Exited r) y]"
          "\<forall>ev \<in> set pre. P ev"
        unfolding E_def CalledProcessError by auto
      then show ?thesis
      proof cases
        case n
        then show ?thesis
          by (simp add: CalledProcessError handlers_eq F_def N_def all_events_def P_def)
      next
        case bad
        then have "F (SystemExit 1) \<lparr>fs = fs w, trace = trace w @
            [Print Stderr (ErrCommandFailed r c), Print Stdout CheckLogs]\<rparr>"
          unfolding F_def by (intro disjI2 conjI exI [of _ c] exI [of _ r] exI [of _ y] exI [of _ pre]) simp_all
        then show ?thesis by (simp add: CalledProcessError handlers_eq)
      qed
    qed
  qed
  have "hoare N (try_except (pipeline e yt mp ff ?t) handlers) (\<lambda>_. N) F"
    by (rule hoare_try [OF pipeline handlers])
  from hoareD [OF this, of "\<lparr>fs = d\<lparr>dirs := dirs d @ [?t]\<rparr>,
      trace = [Mkdtemp ?t, Print Stdout (InfoTempDir ?t)]\<rparr>"]
  have fin: "case main e (start d) of (Inr a, w') \<Rightarrow> N w' | (Inl x, w') \<Rightarrow> F x w'"
    by (simp add: main_found [OF assms(1-6)] N_def all_events_def P_def)
  from assms(7-9) have bad: "\<not> P (Spawn cmd (Exited rc) d')" by (auto simp: P_def)
  with assms(7) have notN: "\<not> N (snd (main e (start d)))" by (auto simp: N_def all_events_def)
  obtain r w' where res: "main e (start d) = (r, w')" by (cases "main e (start d)")
  with fin notN obtain c r' y pre where r: "r = Inl (SystemExit 1)"
    and tr: "trace w' = pre @ [Spawn c (Exited r') y, Print Stderr (ErrCommandFailed r' c), Print Stdout CheckLogs]"
    and pre: "\<forall>ev \<in> set pre. P ev"
    by (cases r) (auto simp: F_def)
  from assms(7) res tr have "Spawn cmd (Exited rc) d' \<in> set pre \<or> Spawn cmd (Exited rc) d' = Spawn c (Exited r') y"
    by auto
  with pre bad have "cmd = c \<and> rc = r' \<and> d' = y" by auto
  with r tr res show ?thesis by auto
qed

section \<open>Sample runs, evaluated\<close>

lemmas run_defs = call_main_def main_def after_tool_check_def pipeline_def handlers_def
  list_formats_def download_video_def download_audio_def validate_files_def decrypt_tracks_def
  decrypt_video_def decrypt_audio_or_candidate_def merge_tracks_def report_success_def
  run_def subprocess_run_def which_or_exit_def mkdtemp_def copy2_def py_print_def
  bind_def then_do_def try_except_def if_then_else_def ret_def raise_def sys_exit_def emit_def
  start_def exit_status_def path_exists_def read_file_def write_file_def
  merged_candidates_def glob_mp4_def child_def path_name_def ends_with_def
  video_enc_def audio_enc_def video_dec_def audio_dec_def key_args_def KEYS_def OUTPUT_def
  sample_env_def which_all_but_def ideal_tool_def tool_except_def moving_tool_def moving_tool_no_audio_def empty_disk_def Let_def

lemma run_ideal:
  "call_main (sample_env ideal_tool) empty_disk =
     (0, \<lparr>fs = \<lparr>dirs = [''/tmp/mpd_dl_x''], files = [(video_enc ''/tmp/mpd_dl_x'',
         ''encrypted''), (audio_enc ''/tmp/mpd_dl_x'', ''encrypted''), (video_dec ''/tmp/mpd_dl_x'',
         ''clear''), (audio_dec ''/tmp/mpd_dl_x'', ''clear''), (OUTPUT, ''clear'')]\<rparr>,
        trace =
         [Mkdtemp ''/tmp/mpd_dl_x'',
          Print Stdout (InfoTempDir ''/tmp/mpd_dl_x''),
          Print Stdout StepListing,
          Print Stdout (Echo [''/usr/bin/yt-dlp'', ''-F'', MPD]),
          Spawn [''/usr/bin/yt-dlp'', ''-F'', MPD] (Exited 0) \<lparr>dirs = [''/tmp/mpd_dl_x''],
              files = []\<rparr>,
          Print Stdout StepVideo,
          Print Stdout (Echo [''/usr/bin/yt-dlp'', ''-f'', ''bestvideo'', ''-o'', video_enc
              ''/tmp/mpd_dl_x'', MPD]),
          Spawn [''/usr/bin/yt-dlp'', ''-f'', ''bestvideo'', ''-o'', video_enc ''/tmp/mpd_dl_x'',
              MPD] (Exited 0) \<lparr>dirs = [''/tmp/mpd_dl_x''], files = [(video_enc
              ''/tmp/mpd_dl_x'', ''encrypted'')]\<rparr>,
          Print Stdout StepAudio,
          Print Stdout (Echo [''/usr/bin/yt-dlp'', ''-f'', ''bestaudio'', ''-o'', audio_enc
              ''/tmp/mpd_dl_x'', MPD]),
          Spawn [''/usr/bin/yt-dlp'', ''-f'', ''bestaudio'', ''-o'', audio_enc ''/tmp/mpd_dl_x'',
              MPD] (Exited 0) \<lparr>dirs = [''/tmp/mpd_dl_x''], files = [(video_enc
              ''/tmp/mpd_dl_x'', ''encrypted''), (audio_enc ''/tmp/mpd_dl_x'',
              ''encrypted'')]\<rparr>,
          Print Stdout StepDecrypt,
          Print Stdout (Echo (''/usr/bin/mp4decrypt'' # key_args @ [video_enc ''/tmp/mpd_dl_x'',
              video_dec ''/tmp/mpd_dl_x''])),
          Spawn (''/usr/bin/mp4decrypt'' # key_args @ [video_enc ''/tmp/mpd_dl_x'', video_dec
              ''/tmp/mpd_dl_x'']) (Exited 0) \<lparr>dirs = [''/tmp/mpd_dl_x''], files = [(video_enc
              ''/tmp/mpd_dl_x'', ''encrypted''), (audio_enc ''/tmp/mpd_dl_x'', ''encrypted''),
              (video_dec ''/tmp/mpd_dl_x'', ''clear'')]\<rparr>,
          Print Stdout (Echo (''/usr/bin/mp4decrypt'' # key_args @ [audio_enc ''/tmp/mpd_dl_x'',
              audio_dec ''/tmp/mpd_dl_x''])),
          Spawn (''/usr/bin/mp4decrypt'' # key_args @ [audio_enc ''/tmp/mpd_dl_x'', audio_dec
              ''/tmp/mpd_dl_x'']) (Exited 0) \<lparr>dirs = [''/tmp/mpd_dl_x''], files = [(video_enc
              ''/tmp/mpd_dl_x'', ''encrypted''), (audio_enc ''/tmp/mpd_dl_x'', ''encrypted''),
              (video_dec ''/tmp/mpd_dl_x'', ''clear''), (audio_dec ''/tmp/mpd_dl_x'',
              ''clear'')]\<rparr>,
          Print Stdout (StepMerge OUTPUT),
          Print Stdout (Echo [''/usr/bin/ffmpeg'', ''-y'', ''-i'', video_dec ''/tmp/mpd_dl_x'',
              ''-i'', audio_dec ''/tmp/mpd_dl_x'', ''-c'', ''copy'', OUTPUT]),
          Spawn [''/usr/bin/ffmpeg'', ''-y'', ''-i'', video_dec ''/tmp/mpd_dl_x'', ''-i'', audio_dec
              ''/tmp/mpd_dl_x'', ''-c'', ''copy'', OUTPUT] (Exited 0) \<lparr>dirs =
              [''/tmp/mpd_dl_x''], files = [(video_enc ''/tmp/mpd_dl_x'', ''encrypted''), (audio_enc
              ''/tmp/mpd_dl_x'', ''encrypted''), (video_dec ''/tmp/mpd_dl_x'', ''clear''),
              (audio_dec ''/tmp/mpd_dl_x'', ''clear''), (OUTPUT, ''clear'')]\<rparr>,
          Print Stdout (Success OUTPUT),
          Print Stdout (CleanupKept ''/tmp/mpd_dl_x''),
          Print Stdout CleanupHint]\<rparr>)"
  by (simp add: run_defs)

lemma run_listing_fails:
  "call_main (sample_env (tool_except 0 (Exited 2))) empty_disk =
     (0, \<lparr>fs = \<lparr>dirs = [''/tmp/mpd_dl_x''], files = [(video_enc ''/tmp/mpd_dl_x'',
         ''encrypted''), (audio_enc ''/tmp/mpd_dl_x'', ''encrypted''), (video_dec ''/tmp/mpd_dl_x'',
         ''clear''), (audio_dec ''/tmp/mpd_dl_x'', ''clear''), (OUTPUT, ''clear'')]\<rparr>,
        trace =
         [Mkdtemp ''/tmp/mpd_dl_x'',
          Print Stdout (InfoTempDir ''/tmp/mpd_dl_x''),
          Print Stdout StepListing,
          Print Stdout (Echo [''/usr/bin/yt-dlp'', ''-F'', MPD]),
          Spawn [''/usr/bin/yt-dlp'', ''-F'', MPD] (Exited 2) \<lparr>dirs = [''/tmp/mpd_dl_x''],
              files = []\<rparr>,
          Print Stdout StepVideo,
          Print Stdout (Echo [''/usr/bin/yt-dlp'', ''-f'', ''bestvideo'', ''-o'', video_enc
              ''/tmp/mpd_dl_x'', MPD]),
          Spawn [''/usr/bin/yt-dlp'', ''-f'', ''bestvideo'', ''-o'', video_enc ''/tmp/mpd_dl_x'',
              MPD] (Exited 0) \<lparr>dirs = [''/tmp/mpd_dl_x''], files = [(video_enc
              ''/tmp/mpd_dl_x'', ''encrypted'')]\<rparr>,
          Print Stdout StepAudio,
          Print Stdout (Echo [''/usr/bin/yt-dlp'', ''-f'', ''bestaudio'', ''-o'', audio_enc
              ''/tmp/mpd_dl_x'', MPD]),
          Spawn [''/usr/bin/yt-dlp'', ''-f'', ''bestaudio'', ''-o'', audio_enc ''/tmp/mpd_dl_x'',
              MPD] (Exited 0) \<lparr>dirs = [''/tmp/mpd_dl_x''], files = [(video_enc
              ''/tmp/mpd_dl_x'', ''encrypted''), (audio_enc ''/tmp/mpd_dl_x'',
              ''encrypted'')]\<rparr>,
          Print Stdout StepDecrypt,
          Print Stdout (Echo (''/usr/bin/mp4decrypt'' # key_args @ [video_enc ''/tmp/mpd_dl_x'',
              video_dec ''/tmp/mpd_dl_x''])),
          Spawn (''/usr/bin/mp4decrypt'' # key_args @ [video_enc ''/tmp/mpd_dl_x'', video_dec
              ''/tmp/mpd_dl_x'']) (Exited 0) \<lparr>dirs = [''/tmp/mpd_dl_x''], files = [(video_enc
              ''/tmp/mpd_dl_x'', ''encrypted''), (audio_enc ''/tmp/mpd_dl_x'', ''encrypted''),
              (video_dec ''/tmp/mpd_dl_x'', ''clear'')]\<rparr>,
          Print Stdout (Echo (''/usr/bin/mp4decrypt'' # key_args @ [audio_enc ''/tmp/mpd_dl_x'',
              audio_dec ''/tmp/mpd_dl_x''])),
          Spawn (''/usr/bin/mp4decrypt'' # key_args @ [audio_enc ''/tmp/mpd_dl_x'', audio_dec
              ''/tmp/mpd_dl_x'']) (Exited 0) \<lparr>dirs = [''/tmp/mpd_dl_x''], files = [(video_enc
              ''/tmp/mpd_dl_x'', ''encrypted''), (audio_enc ''/tmp/mpd_dl_x'', ''encrypted''),
              (video_dec ''/tmp/mpd_dl_x'', ''clear''), (audio_dec ''/tmp/mpd_dl_x'',
              ''clear'')]\<rparr>,
          Print Stdout (StepMerge OUTPUT),
          Print Stdout (Echo [''/usr/bin/ffmpeg'', ''-y'', ''-i'', video_dec ''/tmp/mpd_dl_x'',
              ''-i'', audio_dec ''/tmp/mpd_dl_x'', ''-c'', ''copy'', OUTPUT]),
          Spawn [''/usr/bin/ffmpeg'', ''-y'', ''-i'', video_dec ''/tmp/mpd_dl_x'', ''-i'', audio_dec
              ''/tmp/mpd_dl_x'', ''-c'', ''copy'', OUTPUT] (Exited 0) \<lparr>dirs =
              [''/tmp/mpd_dl_x''], files = [(video_enc ''/tmp/mpd_dl_x'', ''encrypted''), (audio_enc
              ''/tmp/mpd_dl_x'', ''encrypted''), (video_dec ''/tmp/mpd_dl_x'', ''clear''),
              (audio_dec ''/tmp/mpd_dl_x'', ''clear''), (OUTPUT, ''clear'')]\<rparr>,
          Print Stdout (Success OUTPUT),
          Print Stdout (CleanupKept ''/tmp/mpd_dl_x''),
          Print Stdout CleanupHint]\<rparr>)"
  by (simp add: run_defs)

lemma run_video_fails:
  "call_main (sample_env (tool_except 1 (Exited 2))) empty_disk =
     (1, \<lparr>fs = \<lparr>dirs = [''/tmp/mpd_dl_x''], files = []\<rparr>,
        trace =
         [Mkdtemp ''/tmp/mpd_dl_x'',
          Print Stdout (InfoTempDir ''/tmp/mpd_dl_x''),
          Print Stdout StepListing,
          Print Stdout (Echo [''/usr/bin/yt-dlp'', ''-F'', MPD]),
          Spawn [''/usr/bin/yt-dlp'', ''-F'', MPD] (Exited 0) \<lparr>dirs = [''/tmp/mpd_dl_x''],
              files = []\<rparr>,
          Print Stdout StepVideo,
          Print Stdout (Echo [''/usr/bin/yt-dlp'', ''-f'', ''bestvideo'', ''-o'', video_enc
              ''/tmp/mpd_dl_x'', MPD]),
          Spawn [''/usr/bin/yt-dlp'', ''-f'', ''bestvideo'', ''-o'', video_enc ''/tmp/mpd_dl_x'',
              MPD] (Exited 2) \<lparr>dirs = [''/tmp/mpd_dl_x''], files = []\<rparr>,
          Print Stderr (ErrCommandFailed 2 [''/usr/bin/yt-dlp'', ''-f'', ''bestvideo'', ''-o'',
              video_enc ''/tmp/mpd_dl_x'', MPD]),
          Print Stdout CheckLogs]\<rparr>)"
  by (simp add: run_defs)

lemma run_audio_absent:
  "call_main (sample_env (tool_except 2 (Exited 0))) empty_disk =
     (0, \<lparr>fs = \<lparr>dirs = [''/tmp/mpd_dl_x''], files = [(video_enc ''/tmp/mpd_dl_x'',
         ''encrypted''), (video_dec ''/tmp/mpd_dl_x'', ''clear''), (OUTPUT, ''clear'')]\<rparr>,
        trace =
         [Mkdtemp ''/tmp/mpd_dl_x'',
          Print Stdout (InfoTempDir ''/tmp/mpd_dl_x''),
          Print Stdout StepListing,
          Print Stdout (Echo [''/usr/bin/yt-dlp'', ''-F'', MPD]),
          Spawn [''/usr/bin/yt-dlp'', ''-F'', MPD] (Exited 0) \<lparr>dirs = [''/tmp/mpd_dl_x''],
              files = []\<rparr>,
          Print Stdout StepVideo,
          Print Stdout (Echo [''/usr/bin/yt-dlp'', ''-f'', ''bestvideo'', ''-o'', video_enc
              ''/tmp/mpd_dl_x'', MPD]),
          Spawn [''/usr/bin/yt-dlp'', ''-f'', ''bestvideo'', ''-o'', video_enc ''/tmp/mpd_dl_x'',
              MPD] (Exited 0) \<lparr>dirs = [''/tmp/mpd_dl_x''], files = [(video_enc
              ''/tmp/mpd_dl_x'', ''encrypted'')]\<rparr>,
          Print Stdout StepAudio,
          Print Stdout (Echo [''/usr/bin/yt-dlp'', ''-f'', ''bestaudio'', ''-o'', audio_enc
              ''/tmp/mpd_dl_x'', MPD]),
          Spawn [''/usr/bin/yt-dlp'', ''-f'', ''bestaudio'', ''-o'', audio_enc ''/tmp/mpd_dl_x'',
              MPD] (Exited 0) \<lparr>dirs = [''/tmp/mpd_dl_x''], files = [(video_enc
              ''/tmp/mpd_dl_x'', ''encrypted'')]\<rparr>,
          Print Stdout (WarnEncAudioMissing (audio_enc ''/tmp/mpd_dl_x'')),
          Print Stdout StepDecrypt,
          Print Stdout (Echo (''/usr/bin/mp4decrypt'' # key_args @ [video_enc ''/tmp/mpd_dl_x'',
              video_dec ''/tmp/mpd_dl_x''])),
          Spawn (''/usr/bin/mp4decrypt'' # key_args @ [video_enc ''/tmp/mpd_dl_x'', video_dec
              ''/tmp/mpd_dl_x'']) (Exited 0) \<lparr>dirs = [''/tmp/mpd_dl_x''], files = [(video_enc
              ''/tmp/mpd_dl_x'', ''encrypted''), (video_dec ''/tmp/mpd_dl_x'', ''clear'')]\<rparr>,
          Print Stdout (InfoCandidates [video_enc ''/tmp/mpd_dl_x'']),
          Print Stdout (Echo (''/usr/bin/mp4decrypt'' # key_args @ [video_enc ''/tmp/mpd_dl_x'',
              video_dec ''/tmp/mpd_dl_x''])),
          Spawn (''/usr/bin/mp4decrypt'' # key_args @ [video_enc ''/tmp/mpd_dl_x'', video_dec
              ''/tmp/mpd_dl_x'']) (Exited 0) \<lparr>dirs = [''/tmp/mpd_dl_x''], files = [(video_enc
              ''/tmp/mpd_dl_x'', ''encrypted''), (video_dec ''/tmp/mpd_dl_x'', ''clear'')]\<rparr>,
          Print Stdout (StepMerge OUTPUT),
          Print Stdout InfoCopyVideo,
          Copy2 (video_dec ''/tmp/mpd_dl_x'') OUTPUT,
          Print Stdout (Success OUTPUT),
          Print Stdout (CleanupKept ''/tmp/mpd_dl_x''),
          Print Stdout CleanupHint]\<rparr>)"
  by (simp add: run_defs)

lemma run_moving_decryptor:
  "call_main (sample_env moving_tool_no_audio) empty_disk =
     (1, \<lparr>fs = \<lparr>dirs = [''/tmp/mpd_dl_x''], files = [(video_dec ''/tmp/mpd_dl_x'',
         ''clear'')]\<rparr>,
        trace =
         [Mkdtemp ''/tmp/mpd_dl_x'',
          Print Stdout (InfoTempDir ''/tmp/mpd_dl_x''),
          Print Stdout StepListing,
          Print Stdout (Echo [''/usr/bin/yt-dlp'', ''-F'', MPD]),
          Spawn [''/usr/bin/yt-dlp'', ''-F'', MPD] (Exited 0) \<lparr>dirs = [''/tmp/mpd_dl_x''],
              files = []\<rparr>,
          Print Stdout StepVideo,
          Print Stdout (Echo [''/usr/bin/yt-dlp'', ''-f'', ''bestvideo'', ''-o'', video_enc
              ''/tmp/mpd_dl_x'', MPD]),
          Spawn [''/usr/bin/yt-dlp'', ''-f'', ''bestvideo'', ''-o'', video_enc ''/tmp/mpd_dl_x'',
              MPD] (Exited 0) \<lparr>dirs = [''/tmp/mpd_dl_x''], files = [(video_enc
              ''/tmp/mpd_dl_x'', ''encrypted'')]\<rparr>,
          Print Stdout StepAudio,
          Print Stdout (Echo [''/usr/bin/yt-dlp'', ''-f'', ''bestaudio'', ''-o'', audio_enc
              ''/tmp/mpd_dl_x'', MPD]),
          Spawn [''/usr/bin/yt-dlp'', ''-f'', ''bestaudio'', ''-o'', audio_enc ''/tmp/mpd_dl_x'',
              MPD] (Exited 0) \<lparr>dirs = [''/tmp/mpd_dl_x''], files = [(video_enc
              ''/tmp/mpd_dl_x'', ''encrypted'')]\<rparr>,
          Print Stdout (WarnEncAudioMissing (audio_enc ''/tmp/mpd_dl_x'')),
          Print Stdout StepDecrypt,
          Print Stdout (Echo (''/usr/bin/mp4decrypt'' # key_args @ [video_enc ''/tmp/mpd_dl_x'',
              video_dec ''/tmp/mpd_dl_x''])),
          Spawn (''/usr/bin/mp4decrypt'' # key_args @ [video_enc ''/tmp/mpd_dl_x'', video_dec
              ''/tmp/mpd_dl_x'']) (Exited 0) \<lparr>dirs = [''/tmp/mpd_dl_x''], files = [(video_dec
              ''/tmp/mpd_dl_x'', ''clear'')]\<rparr>,
          Print Stderr ErrNoCandidate]\<rparr>)"
  by (simp add: run_defs)


section \<open>The well-behaved sample tools\<close>

lemma ideal_tool_always_succeeds: "always_succeeds (sample_env ideal_tool)"
  by (simp add: always_succeeds_def sample_env_def ideal_tool_def)

lemma ideal_tool_sub_disk: "sub_disk d (snd (ideal_tool n cmd d))"
  by (simp add: ideal_tool_def sub_disk_refl sub_disk_write_file)

lemma ideal_tool_keeps_files: "keeps_files (sample_env ideal_tool)"
  using ideal_tool_sub_disk by (simp add: keeps_files_def sample_env_def sub_disk_def)

lemma ideal_tool_download: "produces (sample_env ideal_tool) [a0, a1, a2, a3, p, a5] p"
  by (simp add: produces_def sample_env_def ideal_tool_def paths_write_file)

lemma ideal_tool_last:
  "length cmd \<noteq> 3 \<Longrightarrow> length cmd \<noteq> 6 \<Longrightarrow> produces (sample_env ideal_tool) cmd (last cmd)"
  by (simp add: produces_def sample_env_def ideal_tool_def paths_write_file)

section \<open>Properties of the pipeline runner\<close>

text \<open>
  Claim C3. When at least one of \<^verbatim>\<open>yt-dlp\<close>, \<^verbatim>\<open>mp4decrypt\<close> and \<^verbatim>\<open>ffmpeg\<close> is not
  found on the search path, the run exits with status 1 and all it has done is print one
  diagnostic on the error stream: the disk is the one it started on (no temporary
  directory was created) and no subprocess was started.
\<close>

theorem missing_tool_exits_before_any_work:
  assumes "which e ''yt-dlp'' = None \<or> which e ''mp4decrypt'' = None \<or> which e ''ffmpeg'' = None"
  shows "\<exists>cmd. cmd \<in> {''yt-dlp'', ''mp4decrypt'', ''ffmpeg''} \<and>
           call_main e d = (1, \<lparr>fs = d, trace = [Print Stderr (ErrToolMissing cmd)]\<rparr>)"
proof (cases e rule: main_cases)
  case (missing cmd)
  have "call_main e d = (1, \<lparr>fs = d, trace = [Print Stderr (ErrToolMissing cmd)]\<rparr>)"
    by (simp add: call_main_def missing(3) exit_status_def start_def emit_def)
  with missing(1) show ?thesis by blast
next
  case (found yt mp ff)
  with assms show ?thesis by simp
qed

theorem missing_tool_witness:
  "which ((sample_env ideal_tool)\<lparr>which := which_all_but ''ffmpeg''\<rparr>) ''ffmpeg'' = None \<and>
   (\<exists>cmd. cmd \<in> {''yt-dlp'', ''mp4decrypt'', ''ffmpeg''} \<and>
      call_main ((sample_env ideal_tool)\<lparr>which := which_all_but ''ffmpeg''\<rparr>) empty_disk =
        (1, \<lparr>fs = empty_disk, trace = [Print Stderr (ErrToolMissing cmd)]\<rparr>))"
proof -
  have h: "which ((sample_env ideal_tool)\<lparr>which := which_all_but ''ffmpeg''\<rparr>) ''ffmpeg'' = None"
    by (simp add: which_all_but_def)
  from h missing_tool_exits_before_any_work [of "(sample_env ideal_tool)\<lparr>which := which_all_but ''ffmpeg''\<rparr>" empty_disk]
  show ?thesis by blast
qed

text \<open>
  Claim C8. Every subprocess a run starts is the listing, one of the two downloads, the
  muxer, or a decryption, and a decryption always has the shape
  \<^verbatim>\<open>mp4decrypt --key K1 --key K2 --key K3 --key K4 --key K5 src dst\<close> with the five
  configured pairs in the order of \<open>KEYS\<close>: the video decryption, the audio decryption and
  the decryption of a fallback candidate all get the same, full key list.
\<close>

theorem every_decrypt_command_carries_all_keys:
  assumes "Spawn cmd out d' \<in> set (trace (snd (call_main e d)))"
  shows "\<exists>yt mp ff. which e ''yt-dlp'' = Some yt \<and> which e ''mp4decrypt'' = Some mp \<and>
           which e ''ffmpeg'' = Some ff \<and>
           (cmd = [yt, ''-F'', MPD] \<or>
            cmd = [yt, ''-f'', ''bestvideo'', ''-o'', video_enc (tmpdir e), MPD] \<or>
            cmd = [yt, ''-f'', ''bestaudio'', ''-o'', audio_enc (tmpdir e), MPD] \<or>
            cmd = [ff, ''-y'', ''-i'', video_dec (tmpdir e), ''-i'', audio_dec (tmpdir e), ''-c'', ''copy'', OUTPUT] \<or>
            (\<exists>src dst. cmd =
               [mp,
                ''--key'', ''833cac330e3f5243bb92b6b1a1f0b830:33eb631c7784af4a6cc9267ed8cbffb0'',
                ''--key'', ''af975c9bf15c521e8ca7946fa5d846eb:b5c26089aca357bfcbff3d6b4a0480a9'',
                ''--key'', ''4b4c8d2ef8885b7db7e8cbaa35157229:f860fe5061896ee121bf09b8050fea67'',
                ''--key'', ''6f5bc63cfb4c527983544e2be87c3ee3:b626a566974683745075058387989f9b'',
                ''--key'', ''829e92634faa53d3825d17710a11d8e7:68287246dd16c51cc36232d577f4108a'',
                src, dst]))"
proof (cases e rule: main_cases)
  case (missing tool)
  with assms show ?thesis by (simp add: snd_call_main start_def emit_def)
next
  case (found yt mp ff)
  define P where "P ev = (case ev of
      Spawn c _ _ \<Rightarrow>
        c = [yt, ''-F'', MPD] \<or>
        c = [yt, ''-f'', ''bestvideo'', ''-o'', video_enc (tmpdir e), MPD] \<or>
        c = [yt, ''-f'', ''bestaudio'', ''-o'', audio_enc (tmpdir e), MPD] \<or>
        c = [ff, ''-y'', ''-i'', video_dec (tmpdir e), ''-i'', audio_dec (tmpdir e), ''-c'', ''copy'', OUTPUT] \<or>
        (\<exists>src dst. c = [mp] @ key_args @ [src, dst])
    | _ \<Rightarrow> True)" for ev
  have "all_events P (start d)" by (simp add: all_events_def start_def)
  then have "all_events P (snd (after_tool_check e yt mp ff (start d)))"
    by (rule events_after_tool_check [rotated -1]) (simp_all add: P_def)
  then have "all_events P (snd (call_main e d))"
    by (simp add: snd_call_main found(7))
  with assms have "P (Spawn cmd out d')" by (simp add: all_events_def)
  with found(1,3,5) show ?thesis by (simp add: P_def key_args_eq)
qed


theorem all_keys_witness:
  "Spawn (''/usr/bin/mp4decrypt'' # key_args @ [audio_enc ''/tmp/mpd_dl_x'', audio_dec ''/tmp/mpd_dl_x''])
     (Exited 0)
     \<lparr>dirs = [''/tmp/mpd_dl_x''],
        files = [(video_enc ''/tmp/mpd_dl_x'', ''encrypted''), (audio_enc ''/tmp/mpd_dl_x'', ''encrypted''),
                 (video_dec ''/tmp/mpd_dl_x'', ''clear''), (audio_dec ''/tmp/mpd_dl_x'', ''clear'')]\<rparr>
     \<in> set (trace (snd (call_main (sample_env ideal_tool) empty_disk))) \<and>
   (\<exists>src dst. ''/usr/bin/mp4decrypt'' # key_args @ [audio_enc ''/tmp/mpd_dl_x'', audio_dec ''/tmp/mpd_dl_x''] =
      [''/usr/bin/mp4decrypt'',
       ''--key'', ''833cac330e3f5243bb92b6b1a1f0b830:33eb631c7784af4a6cc9267ed8cbffb0'',
       ''--key'', ''af975c9bf15c521e8ca7946fa5d846eb:b5c26089aca357bfcbff3d6b4a0480a9'',
       ''--key'', ''4b4c8d2ef8885b7db7e8cbaa35157229:f860fe5061896ee121bf09b8050fea67'',
       ''--key'', ''6f5bc63cfb4c527983544e2be87c3ee3:b626a566974683745075058387989f9b'',
       ''--key'', ''829e92634faa53d3825d17710a11d8e7:68287246dd16c51cc36232d577f4108a'',
       src, dst])"
proof -
  let ?cmd = "''/usr/bin/mp4decrypt'' # key_args @ [audio_enc ''/tmp/mpd_dl_x'', audio_dec ''/tmp/mpd_dl_x'']"
  let ?d = "\<lparr>dirs = [''/tmp/mpd_dl_x''],
        files = [(video_enc ''/tmp/mpd_dl_x'', ''encrypted''), (audio_enc ''/tmp/mpd_dl_x'', ''encrypted''),
                 (video_dec ''/tmp/mpd_dl_x'', ''clear''), (audio_dec ''/tmp/mpd_dl_x'', ''clear'')]\<rparr>"
  have h: "Spawn ?cmd (Exited 0) ?d \<in> set (trace (snd (call_main (sample_env ideal_tool) empty_disk)))"
    by (simp add: run_ideal)
  from every_decrypt_command_carries_all_keys [OF h]
  obtain yt mp ff where w: "which (sample_env ideal_tool) ''mp4decrypt'' = Some mp"
    and c: "?cmd = [yt, ''-F'', MPD] \<or>
            ?cmd = [yt, ''-f'', ''bestvideo'', ''-o'', video_enc (tmpdir (sample_env ideal_tool)), MPD] \<or>
            ?cmd = [yt, ''-f'', ''bestaudio'', ''-o'', audio_enc (tmpdir (sample_env ideal_tool)), MPD] \<or>
            ?cmd = [ff, ''-y'', ''-i'', video_dec (tmpdir (sample_env ideal_tool)), ''-i'',
                    audio_dec (tmpdir (sample_env ideal_tool)), ''-c'', ''copy'', OUTPUT] \<or>
            (\<exists>src dst. ?cmd =
               [mp,
                ''--key'', ''833cac330e3f5243bb92b6b1a1f0b830:33eb631c7784af4a6cc9267ed8cbffb0'',
                ''--key'', ''af975c9bf15c521e8ca7946fa5d846eb:b5c26089aca357bfcbff3d6b4a0480a9'',
                ''--key'', ''4b4c8d2ef8885b7db7e8cbaa35157229:f860fe5061896ee121bf09b8050fea67'',
                ''--key'', ''6f5bc63cfb4c527983544e2be87c3ee3:b626a566974683745075058387989f9b'',
                ''--key'', ''829e92634faa53d3825d17710a11d8e7:68287246dd16c51cc36232d577f4108a'',
                src, dst])"
    by blast
  from w have mp: "mp = ''/usr/bin/mp4decrypt''"
    by (simp add: sample_env_def which_all_but_def)
  have len: "length ?cmd = 13" by (simp add: key_args_eq)
  from c len have "\<exists>src dst. ?cmd =
               [mp,
                ''--key'', ''833cac330e3f5243bb92b6b1a1f0b830:33eb631c7784af4a6cc9267ed8cbffb0'',
                ''--key'', ''af975c9bf15c521e8ca7946fa5d846eb:b5c26089aca357bfcbff3d6b4a0480a9'',
                ''--key'', ''4b4c8d2ef8885b7db7e8cbaa35157229:f860fe5061896ee121bf09b8050fea67'',
                ''--key'', ''6f5bc63cfb4c527983544e2be87c3ee3:b626a566974683745075058387989f9b'',
                ''--key'', ''829e92634faa53d3825d17710a11d8e7:68287246dd16c51cc36232d577f4108a'',
                src, dst]"
    by (elim disjE) simp_all
  with h mp show ?thesis by simp
qed

text \<open>
  What \<open>main\<close> does when all goes well. Claim C1 promises this of the program; the
  shipped file does not keep the promise, because its line 152 stops the interpreter
  before \<open>main\<close> is called. The function itself is not at fault: once called, when
  the three tools are found, every subprocess returns 0, no subprocess removes a file,
  and each download, each decryption and the muxer leaves its output file on disk,
  \<open>main\<close> returns (exit status 0) and \<^verbatim>\<open>final_output.mp4\<close> (a path relative to the
  current working directory) exists.
\<close>

theorem all_tools_succeed_gives_final_output:
  assumes "which e ''yt-dlp'' = Some yt" and "yt \<noteq> []"
    and "which e ''mp4decrypt'' = Some mp" and "mp \<noteq> []"
    and "which e ''ffmpeg'' = Some ff" and "ff \<noteq> []"
    and "always_succeeds e" and "keeps_files e"
    and "produces e [yt, ''-f'', ''bestvideo'', ''-o'', video_enc (tmpdir e), MPD] (video_enc (tmpdir e))"
    and "produces e [yt, ''-f'', ''bestaudio'', ''-o'', audio_enc (tmpdir e), MPD] (audio_enc (tmpdir e))"
    and "produces e ([mp] @ key_args @ [video_enc (tmpdir e), video_dec (tmpdir e)]) (video_dec (tmpdir e))"
    and "produces e ([mp] @ key_args @ [audio_enc (tmpdir e), audio_dec (tmpdir e)]) (audio_dec (tmpdir e))"
    and "produces e [ff, ''-y'', ''-i'', video_dec (tmpdir e), ''-i'', audio_dec (tmpdir e), ''-c'', ''copy'', OUTPUT] OUTPUT"
  shows "fst (call_main e d) = 0 \<and> path_exists OUTPUT (snd (call_main e d))"
proof -
  have main: "main e w = after_tool_check e yt mp ff w" for w
    using assms(1-6) by (simp add: main_def bind_def which_or_exit_found)
  let ?w0 = "emit (Mkdtemp (tmpdir e)) ((start d)\<lparr>fs := (fs (start d))\<lparr>dirs := dirs (fs (start d)) @ [tmpdir e]\<rparr>\<rparr>)"
  have "hoare (\<lambda>w. {} \<subseteq> paths (fs w))
     (then_do (py_print Stdout (InfoTempDir (tmpdir e)))
       (try_except (pipeline e yt mp ff (tmpdir e)) handlers))
     (\<lambda>_ w. {OUTPUT} \<subseteq> paths (fs w)) (\<lambda>_ _. False)"
    by (rule hoare_then, rule hoare_print_fs [where R = "\<lambda>d. {} \<subseteq> paths d"],
        rule hoare_try [where E' = "\<lambda>_ _. False"], rule pipeline_succeeds [OF assms(7-13)],
        rule hoare_false_pre)
  from hoareD [OF this, of ?w0]
  have "case main e (start d) of (Inr a, w') \<Rightarrow> {OUTPUT} \<subseteq> paths (fs w') | (Inl x, w') \<Rightarrow> False"
    by (simp add: main after_tool_check_eq)
  then show ?thesis
    by (auto simp: call_main_def exit_status_def path_exists_paths split: prod.splits sum.splits)
qed

theorem final_output_witness:
  "always_succeeds (sample_env ideal_tool) \<and> keeps_files (sample_env ideal_tool) \<and>
   fst (call_main (sample_env ideal_tool) empty_disk) = 0 \<and>
   path_exists OUTPUT (snd (call_main (sample_env ideal_tool) empty_disk))"
proof -
  let ?e = "sample_env ideal_tool"
  let ?t = "tmpdir ?e"
  have w: "which ?e ''yt-dlp'' = Some ''/usr/bin/yt-dlp''" "''/usr/bin/yt-dlp'' \<noteq> []"
      "which ?e ''mp4decrypt'' = Some ''/usr/bin/mp4decrypt''" "''/usr/bin/mp4decrypt'' \<noteq> []"
      "which ?e ''ffmpeg'' = Some ''/usr/bin/ffmpeg''" "''/usr/bin/ffmpeg'' \<noteq> []"
    by (simp_all add: sample_env_def which_all_but_def)
  have p1: "produces ?e [''/usr/bin/yt-dlp'', ''-f'', ''bestvideo'', ''-o'', video_enc ?t, MPD] (video_enc ?t)"
    by (rule ideal_tool_download)
  have p2: "produces ?e [''/usr/bin/yt-dlp'', ''-f'', ''bestaudio'', ''-o'', audio_enc ?t, MPD] (audio_enc ?t)"
    by (rule ideal_tool_download)
  have p3: "produces ?e ([''/usr/bin/mp4decrypt''] @ key_args @ [video_enc ?t, video_dec ?t]) (video_dec ?t)"
    using ideal_tool_last [of "[''/usr/bin/mp4decrypt''] @ key_args @ [video_enc ?t, video_dec ?t]"]
    by (simp add: key_args_eq)
  have p4: "produces ?e ([''/usr/bin/mp4decrypt''] @ key_args @ [audio_enc ?t, audio_dec ?t]) (audio_dec ?t)"
    using ideal_tool_last [of "[''/usr/bin/mp4decrypt''] @ key_args @ [audio_enc ?t, audio_dec ?t]"]
    by (simp add: key_args_eq)
  have p5: "produces ?e [''/usr/bin/ffmpeg'', ''-y'', ''-i'', video_dec ?t, ''-i'', audio_dec ?t, ''-c'', ''copy'', OUTPUT] OUTPUT"
    using ideal_tool_last [of "[''/usr/bin/ffmpeg'', ''-y'', ''-i'', video_dec ?t, ''-i'', audio_dec ?t, ''-c'', ''copy'', OUTPUT]"]
    by simp
  from all_tools_succeed_gives_final_output
    [OF w ideal_tool_always_succeeds ideal_tool_keeps_files p1 p2 p3 p4 p5, of empty_disk]
  show ?thesis by (simp add: ideal_tool_always_succeeds ideal_tool_keeps_files)
qed





text \<open>
  Claim C10. The program deletes nothing. In a run whose subprocesses remove no file and
  no directory, the final disk still has every file and directory of the initial disk
  and of the disk each subprocess left behind, and the temporary directory if the run
  came to create it; this holds however the run ends.
\<close>

theorem nothing_is_ever_deleted:
  assumes "keeps_files e"
  shows "sub_disk d (fs (snd (call_main e d))) \<and>
         (\<forall>cmd out d'. Spawn cmd out d' \<in> set (trace (snd (call_main e d))) \<longrightarrow>
            sub_disk d' (fs (snd (call_main e d)))) \<and>
         (\<forall>t. Mkdtemp t \<in> set (trace (snd (call_main e d))) \<longrightarrow>
            t \<in> set (dirs (fs (snd (call_main e d)))))"
proof -
  have "preserves (nothing_lost d) (main e)"
    by (intro preserves_main nothing_lost_print nothing_lost_subprocess_run nothing_lost_copy2
        nothing_lost_mkdtemp assms)
  moreover have "nothing_lost d (start d)"
    by (simp add: nothing_lost_def start_def sub_disk_refl)
  ultimately have "nothing_lost d (snd (main e (start d)))" by (rule preservesD)
  then show ?thesis by (simp add: nothing_lost_def snd_call_main)
qed

theorem nothing_deleted_witness:
  "keeps_files (sample_env ideal_tool) \<and>
   sub_disk empty_disk (fs (snd (call_main (sample_env ideal_tool) empty_disk))) \<and>
   sub_disk \<lparr>dirs = [''/tmp/mpd_dl_x''], files = [(video_enc ''/tmp/mpd_dl_x'', ''encrypted'')]\<rparr>
     (fs (snd (call_main (sample_env ideal_tool) empty_disk))) \<and>
   ''/tmp/mpd_dl_x'' \<in> set (dirs (fs (snd (call_main (sample_env ideal_tool) empty_disk))))"
proof -
  let ?e = "sample_env ideal_tool"
  let ?d1 = "\<lparr>dirs = [''/tmp/mpd_dl_x''], files = [(video_enc ''/tmp/mpd_dl_x'', ''encrypted'')]\<rparr>"
  have s: "Spawn [''/usr/bin/yt-dlp'', ''-f'', ''bestvideo'', ''-o'', video_enc ''/tmp/mpd_dl_x'', MPD]
             (Exited 0) ?d1 \<in> set (trace (snd (call_main ?e empty_disk)))"
    by (simp add: run_ideal)
  have m: "Mkdtemp ''/tmp/mpd_dl_x'' \<in> set (trace (snd (call_main ?e empty_disk)))"
    by (simp add: run_ideal)
  from nothing_is_ever_deleted [OF ideal_tool_keeps_files, of empty_disk] s m
  show ?thesis using ideal_tool_keeps_files by blast
qed

text \<open>
  Claim C4. When the video download returns a non-zero code, the run exits with status 1
  and the only subprocesses it has started are the listing and that download: neither
  the decryptor nor the audio download nor the muxer is ever invoked.
\<close>

theorem failed_video_download_is_fatal:
  assumes "Spawn [yt, ''-f'', ''bestvideo'', ''-o'', video_enc (tmpdir e), MPD] (Exited rc) d'
             \<in> set (trace (snd (call_main e d)))"
    and "rc \<noteq> 0"
  shows "fst (call_main e d) = 1 \<and>
         commands_of (trace (snd (call_main e d))) =
           [[yt, ''-F'', MPD], [yt, ''-f'', ''bestvideo'', ''-o'', video_enc (tmpdir e), MPD]]"
proof (cases e rule: main_cases)
  case (missing tool)
  with assms(1) show ?thesis by (simp add: snd_call_main start_def emit_def)
next
  case (found yt' mp ff)
  from assms(1) have "Spawn [yt, ''-f'', ''bestvideo'', ''-o'', video_enc (tmpdir e), MPD] (Exited rc) d'
      \<in> set (trace (snd (main e (start d))))"
    by (simp add: snd_call_main)
  from failed_video_download_stops_the_run [OF found(1-6) this assms(2)]
  have st: "fst (main e (start d)) = Inl (SystemExit 1)"
    and cmds: "commands_of (trace (snd (main e (start d)))) =
       [[yt', ''-F'', MPD], [yt', ''-f'', ''bestvideo'', ''-o'', video_enc (tmpdir e), MPD]]"
    by simp_all
  from assms(1) have "[yt, ''-f'', ''bestvideo'', ''-o'', video_enc (tmpdir e), MPD]
      \<in> set (commands_of (trace (snd (main e (start d)))))"
    by (simp add: snd_call_main spawn_in_commands)
  with cmds have "yt = yt'" by simp
  with st cmds show ?thesis by (simp add: fst_call_main snd_call_main exit_status_def)
qed

theorem failed_video_witness:
  "Spawn [''/usr/bin/yt-dlp'', ''-f'', ''bestvideo'', ''-o'', video_enc ''/tmp/mpd_dl_x'', MPD] (Exited 2)
      \<lparr>dirs = [''/tmp/mpd_dl_x''], files = []\<rparr>
     \<in> set (trace (snd (call_main (sample_env (tool_except 1 (Exited 2))) empty_disk))) \<and>
   fst (call_main (sample_env (tool_except 1 (Exited 2))) empty_disk) = 1 \<and>
   commands_of (trace (snd (call_main (sample_env (tool_except 1 (Exited 2))) empty_disk))) =
     [[''/usr/bin/yt-dlp'', ''-F'', MPD],
      [''/usr/bin/yt-dlp'', ''-f'', ''bestvideo'', ''-o'', video_enc ''/tmp/mpd_dl_x'', MPD]]"
proof -
  let ?e = "sample_env (tool_except 1 (Exited 2))"
  have t: "tmpdir ?e = ''/tmp/mpd_dl_x''" by (simp add: sample_env_def)
  have h: "Spawn [''/usr/bin/yt-dlp'', ''-f'', ''bestvideo'', ''-o'', video_enc (tmpdir ?e), MPD] (Exited 2)
      \<lparr>dirs = [''/tmp/mpd_dl_x''], files = []\<rparr> \<in> set (trace (snd (call_main ?e empty_disk)))"
    unfolding t run_video_fails by simp
  have nz: "(2::int) \<noteq> 0" by simp
  from failed_video_download_is_fatal [OF h nz] h show ?thesis unfolding t by blast
qed

text \<open>
  Claim C6, as stated, fails: a run can reach the decrypt step, after the encrypted
  video was downloaded and validated, and still take the no-candidate branch. Here the
  audio download leaves no file and the decryptor consumes its input, so that the only
  \<^verbatim>\<open>*.mp4\<close> left for the search is the decrypted video itself, which the filter excludes.
\<close>

theorem no_candidate_branch_is_reached:
  "Print Stdout StepDecrypt \<in> set (trace (snd (call_main (sample_env moving_tool_no_audio) empty_disk))) \<and>
   Print Stderr ErrNoCandidate \<in> set (trace (snd (call_main (sample_env moving_tool_no_audio) empty_disk))) \<and>
   fst (call_main (sample_env moving_tool_no_audio) empty_disk) = 1"
  by (simp add: run_moving_decryptor)

text \<open>
  Claim C6, amended. The candidates are exactly the files directly in the temporary
  directory whose name ends in \<^verbatim>\<open>.mp4\<close> and is not \<^verbatim>\<open>video.decrypted.mp4\<close>; the
  encrypted video, when it is on disk at the time of the search, is one of them; in a run
  whose subprocesses remove no file the no-candidate diagnostic is never printed; and
  the candidate decrypted can be the encrypted video that was already decrypted, written
  over the decrypted video again (the sample run with no audio file starts the same
  decryption twice).
\<close>

theorem candidates_and_the_encrypted_video:
  "(p \<in> set (merged_candidates tmp w) \<longleftrightarrow>
      path_exists p w \<and> p = child tmp (path_name p) \<and> ends_with (path_name p) ''.mp4'' \<and>
      path_name p \<noteq> ''video.decrypted.mp4'') \<and>
   (path_exists (video_enc tmp) w \<longrightarrow> video_enc tmp \<in> set (merged_candidates tmp w)) \<and>
   (keeps_files e \<longrightarrow> Print Stderr ErrNoCandidate \<notin> set (trace (snd (call_main e d)))) \<and>
   commands_of (trace (snd (call_main (sample_env (tool_except 2 (Exited 0))) empty_disk))) =
     [[''/usr/bin/yt-dlp'', ''-F'', MPD],
      [''/usr/bin/yt-dlp'', ''-f'', ''bestvideo'', ''-o'', video_enc ''/tmp/mpd_dl_x'', MPD],
      [''/usr/bin/yt-dlp'', ''-f'', ''bestaudio'', ''-o'', audio_enc ''/tmp/mpd_dl_x'', MPD],
      ''/usr/bin/mp4decrypt'' # key_args @ [video_enc ''/tmp/mpd_dl_x'', video_dec ''/tmp/mpd_dl_x''],
      ''/usr/bin/mp4decrypt'' # key_args @ [video_enc ''/tmp/mpd_dl_x'', video_dec ''/tmp/mpd_dl_x'']]"
proof -
  have "commands_of (trace (snd (call_main (sample_env (tool_except 2 (Exited 0))) empty_disk))) =
     [[''/usr/bin/yt-dlp'', ''-F'', MPD],
      [''/usr/bin/yt-dlp'', ''-f'', ''bestvideo'', ''-o'', video_enc ''/tmp/mpd_dl_x'', MPD],
      [''/usr/bin/yt-dlp'', ''-f'', ''bestaudio'', ''-o'', audio_enc ''/tmp/mpd_dl_x'', MPD],
      ''/usr/bin/mp4decrypt'' # key_args @ [video_enc ''/tmp/mpd_dl_x'', video_dec ''/tmp/mpd_dl_x''],
      ''/usr/bin/mp4decrypt'' # key_args @ [video_enc ''/tmp/mpd_dl_x'', video_dec ''/tmp/mpd_dl_x'']]"
    by (simp add: run_audio_absent)
  with mem_merged_candidates [of p tmp w] video_enc_is_candidate [of tmp w]
    no_candidate_error_unless_files_removed [of e d]
  show ?thesis by blast
qed

theorem candidates_witness:
  "keeps_files (sample_env ideal_tool) \<and>
   Print Stderr ErrNoCandidate \<notin> set (trace (snd (call_main (sample_env ideal_tool) empty_disk))) \<and>
   path_exists (video_enc ''/tmp/mpd_dl_x'')
     \<lparr>fs = \<lparr>dirs = [''/tmp/mpd_dl_x''],
             files = [(video_enc ''/tmp/mpd_dl_x'', ''encrypted''), (video_dec ''/tmp/mpd_dl_x'', ''clear'')]\<rparr>,
        trace = []\<rparr> \<and>
   video_enc ''/tmp/mpd_dl_x'' \<in> set (merged_candidates ''/tmp/mpd_dl_x''
     \<lparr>fs = \<lparr>dirs = [''/tmp/mpd_dl_x''],
             files = [(video_enc ''/tmp/mpd_dl_x'', ''encrypted''), (video_dec ''/tmp/mpd_dl_x'', ''clear'')]\<rparr>,
        trace = []\<rparr>)"
proof -
  let ?w = "\<lparr>fs = \<lparr>dirs = [''/tmp/mpd_dl_x''],
             files = [(video_enc ''/tmp/mpd_dl_x'', ''encrypted''), (video_dec ''/tmp/mpd_dl_x'', ''clear'')]\<rparr>,
        trace = []\<rparr>"
  have h: "path_exists (video_enc ''/tmp/mpd_dl_x'') ?w" by (simp add: path_exists_def)
  from candidates_and_the_encrypted_video [of "video_enc ''/tmp/mpd_dl_x''" "''/tmp/mpd_dl_x''" ?w
      "sample_env ideal_tool" empty_disk] h ideal_tool_keeps_files
  show ?thesis by blast
qed

text \<open>
  Claim C9, as stated, fails in one word: a failed listing is not logged. The handler
  of line 82 is \<^verbatim>\<open>pass\<close>, so the script prints nothing about the failure: with a
  listing that returns 2, the run prints exactly what the run with a successful listing
  prints (and still ends with status 0).
\<close>

theorem listing_failure_is_not_logged:
  "Spawn [''/usr/bin/yt-dlp'', ''-F'', MPD] (Exited 2) \<lparr>dirs = [''/tmp/mpd_dl_x''], files = []\<rparr>
     \<in> set (trace (snd (call_main (sample_env (tool_except 0 (Exited 2))) empty_disk))) \<and>
   prints_of (trace (snd (call_main (sample_env (tool_except 0 (Exited 2))) empty_disk))) =
   prints_of (trace (snd (call_main (sample_env ideal_tool) empty_disk))) \<and>
   fst (call_main (sample_env (tool_except 0 (Exited 2))) empty_disk) = 0"
  by (simp add: run_listing_fails run_ideal)

text \<open>
  Claim C9, amended. A listing that returns any code, zero or not, is followed at once
  by the announcement and the start of the video download, with nothing printed in
  between; and the listing is the only subprocess that may return a non-zero code
  without ending the run: after any other subprocess that does, the script prints the
  two lines of its handler, starts nothing more and exits with status 1.
\<close>

theorem listing_failure_is_ignored_silently:
  assumes "which e ''yt-dlp'' = Some yt" and "yt \<noteq> []"
    and "which e ''mp4decrypt'' = Some mp" and "mp \<noteq> []"
    and "which e ''ffmpeg'' = Some ff" and "ff \<noteq> []"
  shows "(exec e 0 [yt, ''-F'', MPD] (d\<lparr>dirs := dirs d @ [tmpdir e]\<rparr>) = (Exited rc, d1) \<longrightarrow>
          (\<exists>out d2 post. trace (snd (call_main e d)) =
             [Mkdtemp (tmpdir e), Print Stdout (InfoTempDir (tmpdir e)),
              Print Stdout StepListing, Print Stdout (Echo [yt, ''-F'', MPD]),
              Spawn [yt, ''-F'', MPD] (Exited rc) d1,
              Print Stdout StepVideo,
              Print Stdout (Echo [yt, ''-f'', ''bestvideo'', ''-o'', video_enc (tmpdir e), MPD]),
              Spawn [yt, ''-f'', ''bestvideo'', ''-o'', video_enc (tmpdir e), MPD] out d2] @ post)) \<and>
         (\<forall>cmd r d'. Spawn cmd (Exited r) d' \<in> set (trace (snd (call_main e d))) \<and> r \<noteq> 0 \<and>
              cmd \<noteq> [yt, ''-F'', MPD] \<longrightarrow>
            fst (call_main e d) = 1 \<and>
            (\<exists>pre. trace (snd (call_main e d)) =
               pre @ [Spawn cmd (Exited r) d', Print Stderr (ErrCommandFailed r cmd),
                      Print Stdout CheckLogs]))"
proof (intro conjI impI allI)
  assume "exec e 0 [yt, ''-F'', MPD] (d\<lparr>dirs := dirs d @ [tmpdir e]\<rparr>) = (Exited rc, d1)"
  from run_continues_after_listing [OF assms this]
  show "\<exists>out d2 post. trace (snd (call_main e d)) =
             [Mkdtemp (tmpdir e), Print Stdout (InfoTempDir (tmpdir e)),
              Print Stdout StepListing, Print Stdout (Echo [yt, ''-F'', MPD]),
              Spawn [yt, ''-F'', MPD] (Exited rc) d1,
              Print Stdout StepVideo,
              Print Stdout (Echo [yt, ''-f'', ''bestvideo'', ''-o'', video_enc (tmpdir e), MPD]),
              Spawn [yt, ''-f'', ''bestvideo'', ''-o'', video_enc (tmpdir e), MPD] out d2] @ post"
    by (simp add: snd_call_main)
next
  fix cmd r d'
  assume h: "Spawn cmd (Exited r) d' \<in> set (trace (snd (call_main e d))) \<and> r \<noteq> 0 \<and>
              cmd \<noteq> [yt, ''-F'', MPD]"
  then have "Spawn cmd (Exited r) d' \<in> set (trace (snd (main e (start d))))"
    by (simp add: snd_call_main)
  from only_the_listing_may_fail [OF assms this] h
  have 1: "fst (main e (start d)) = Inl (SystemExit 1)"
    and 2: "\<exists>pre. trace (snd (main e (start d))) =
            pre @ [Spawn cmd (Exited r) d', Print Stderr (ErrCommandFailed r cmd), Print Stdout CheckLogs]"
    by simp_all
  from 1 show "fst (call_main e d) = 1" by (simp add: fst_call_main exit_status_def)
  from 2 show "\<exists>pre. trace (snd (call_main e d)) =
               pre @ [Spawn cmd (Exited r) d', Print Stderr (ErrCommandFailed r cmd),
                      Print Stdout CheckLogs]"
    by (simp add: snd_call_main)
qed

theorem listing_failure_witness:
  "exec (sample_env (tool_except 0 (Exited 2))) 0 [''/usr/bin/yt-dlp'', ''-F'', MPD]
      (empty_disk\<lparr>dirs := dirs empty_disk @ [''/tmp/mpd_dl_x'']\<rparr>) =
      (Exited 2, \<lparr>dirs = [''/tmp/mpd_dl_x''], files = []\<rparr>) \<and>
   (\<exists>out d2 post. trace (snd (call_main (sample_env (tool_except 0 (Exited 2))) empty_disk)) =
      [Mkdtemp ''/tmp/mpd_dl_x'', Print Stdout (InfoTempDir ''/tmp/mpd_dl_x''),
       Print Stdout StepListing, Print Stdout (Echo [''/usr/bin/yt-dlp'', ''-F'', MPD]),
       Spawn [''/usr/bin/yt-dlp'', ''-F'', MPD] (Exited 2) \<lparr>dirs = [''/tmp/mpd_dl_x''], files = []\<rparr>,
       Print Stdout StepVideo,
       Print Stdout (Echo [''/usr/bin/yt-dlp'', ''-f'', ''bestvideo'', ''-o'', video_enc ''/tmp/mpd_dl_x'', MPD]),
       Spawn [''/usr/bin/yt-dlp'', ''-f'', ''bestvideo'', ''-o'', video_enc ''/tmp/mpd_dl_x'', MPD] out d2] @ post) \<and>
   Spawn [''/usr/bin/yt-dlp'', ''-f'', ''bestvideo'', ''-o'', video_enc ''/tmp/mpd_dl_x'', MPD] (Exited 2)
      \<lparr>dirs = [''/tmp/mpd_dl_x''], files = []\<rparr>
     \<in> set (trace (snd (call_main (sample_env (tool_except 1 (Exited 2))) empty_disk))) \<and>
   fst (call_main (sample_env (tool_except 1 (Exited 2))) empty_disk) = 1 \<and>
   (\<exists>pre. trace (snd (call_main (sample_env (tool_except 1 (Exited 2))) empty_disk)) =
      pre @ [Spawn [''/usr/bin/yt-dlp'', ''-f'', ''bestvideo'', ''-o'', video_enc ''/tmp/mpd_dl_x'', MPD] (Exited 2)
               \<lparr>dirs = [''/tmp/mpd_dl_x''], files = []\<rparr>,
             Print Stderr (ErrCommandFailed 2
               [''/usr/bin/yt-dlp'', ''-f'', ''bestvideo'', ''-o'', video_enc ''/tmp/mpd_dl_x'', MPD]),
             Print Stdout CheckLogs])"
proof -
  let ?e0 = "sample_env (tool_except 0 (Exited 2))"
  let ?e1 = "sample_env (tool_except 1 (Exited 2))"
  let ?V = "[''/usr/bin/yt-dlp'', ''-f'', ''bestvideo'', ''-o'', video_enc ''/tmp/mpd_dl_x'', MPD]"
  let ?d0 = "\<lparr>dirs = [''/tmp/mpd_dl_x''], files = []\<rparr>"
  have w0: "which ?e0 ''yt-dlp'' = Some ''/usr/bin/yt-dlp''" "''/usr/bin/yt-dlp'' \<noteq> []"
      "which ?e0 ''mp4decrypt'' = Some ''/usr/bin/mp4decrypt''" "''/usr/bin/mp4decrypt'' \<noteq> []"
      "which ?e0 ''ffmpeg'' = Some ''/usr/bin/ffmpeg''" "''/usr/bin/ffmpeg'' \<noteq> []"
    by (simp_all add: sample_env_def which_all_but_def)
  have w1: "which ?e1 ''yt-dlp'' = Some ''/usr/bin/yt-dlp''" "''/usr/bin/yt-dlp'' \<noteq> []"
      "which ?e1 ''mp4decrypt'' = Some ''/usr/bin/mp4decrypt''" "''/usr/bin/mp4decrypt'' \<noteq> []"
      "which ?e1 ''ffmpeg'' = Some ''/usr/bin/ffmpeg''" "''/usr/bin/ffmpeg'' \<noteq> []"
    by (simp_all add: sample_env_def which_all_but_def)
  have t0: "tmpdir ?e0 = ''/tmp/mpd_dl_x''" and t1: "tmpdir ?e1 = ''/tmp/mpd_dl_x''"
    by (simp_all add: sample_env_def)
  have x: "exec ?e0 0 [''/usr/bin/yt-dlp'', ''-F'', MPD]
      (empty_disk\<lparr>dirs := dirs empty_disk @ [tmpdir ?e0]\<rparr>) = (Exited 2, ?d0)"
    by (simp add: sample_env_def tool_except_def empty_disk_def)
  have s: "Spawn ?V (Exited 2) ?d0 \<in> set (trace (snd (call_main ?e1 empty_disk)))"
    unfolding run_video_fails by simp
  have v: "?V \<noteq> [''/usr/bin/yt-dlp'', ''-F'', MPD]" by simp
  have nz: "(2::int) \<noteq> 0" by simp
  note a = listing_failure_is_ignored_silently [OF w0, of empty_disk 2 ?d0, unfolded t0]
  note b = listing_failure_is_ignored_silently [OF w1, of empty_disk 2 ?d0, unfolded t1]
  from a x [unfolded t0]
  have 1: "\<exists>out d2 post. trace (snd (call_main ?e0 empty_disk)) =
      [Mkdtemp ''/tmp/mpd_dl_x'', Print Stdout (InfoTempDir ''/tmp/mpd_dl_x''),
       Print Stdout StepListing, Print Stdout (Echo [''/usr/bin/yt-dlp'', ''-F'', MPD]),
       Spawn [''/usr/bin/yt-dlp'', ''-F'', MPD] (Exited 2) ?d0,
       Print Stdout StepVideo, Print Stdout (Echo ?V), Spawn ?V out d2] @ post"
    by blast
  from b s v nz
  have 2: "fst (call_main ?e1 empty_disk) = 1 \<and>
     (\<exists>pre. trace (snd (call_main ?e1 empty_disk)) =
        pre @ [Spawn ?V (Exited 2) ?d0, Print Stderr (ErrCommandFailed 2 ?V), Print Stdout CheckLogs])"
    by blast
  from x [unfolded t0] 1 s 2 show ?thesis by blast
qed

end
